theory Spec2Isabelle
  imports Complex_Main
begin

section \<open>Run-time configuration of the square-basin storm-surge run\<close>

text \<open>
  The module \<^verbatim>\<open>storm_surge/square_basin/setrun.py\<close> (Python 2) fills three data objects
  for the GeoClaw solver: \<^verbatim>\<open>setrun\<close> fills \<^verbatim>\<open>rundata.clawdata\<close>, \<^verbatim>\<open>setgeo\<close> fills
  \<^verbatim>\<open>rundata.geodata\<close> and \<^verbatim>\<open>set_storm\<close> fills a storm object. Each function is a
  sequence of attribute assignments; the model is a record per object and a record update
  per assignment, in the order of the source.

  Numbers. Python integers are \<open>int\<close>. A Python float is an IEEE 754 double; it is
  modelled by the real number it denotes, and a float literal such as \<^verbatim>\<open>455e3\<close> is
  written as the numeral \<open>455000\<close>. The divisions, products and sums of the output
  schedule (\<^verbatim>\<open>setrun\<close>) and of the gauge placement (\<^verbatim>\<open>setgeo\<close>) are the exact
  operation followed by the rounding \<open>fl\<close> to the nearest double, the variables of
  these expressions being parameters below. In Python 2 the operator \<^verbatim>\<open>/\<close> is the
  floor division when both operands are integers; each division of the module has a float
  operand (\<^verbatim>\<open>step\<close> in \<^verbatim>\<open>setrun\<close>, \<^verbatim>\<open>550e3\<close> in \<^verbatim>\<open>setgeo\<close>), so each is
  a float division, an integer operand being converted first. The one product of
  \<^verbatim>\<open>set_storm\<close>, \<^verbatim>\<open>950.0 * 1e2\<close>, is exact in doubles and is kept as the exact
  product.

  Errors. A failed \<^verbatim>\<open>assert\<close>, a \<^verbatim>\<open>raise\<close> and a division by zero are values of
  the type \<open>error\<close>, and a function that can fail returns \<open>error + 'a\<close>.

  Output. The \<^verbatim>\<open>print\<close> statements of \<^verbatim>\<open>setgeo\<close> only write diagnostics to the
  terminal and are left out.
\<close>

subsection \<open>Python built-ins used by the module\<close>

datatype error =
    AssertionError string
  | AttributeError string
  | ZeroDivisionError

text \<open>\<^verbatim>\<open>str.lower()\<close> on a byte string: the letters A to Z are mapped to a to z.\<close>

definition lower_char :: "char \<Rightarrow> char" where
  "lower_char c =
     (case map_of (zip ''ABCDEFGHIJKLMNOPQRSTUVWXYZ'' ''abcdefghijklmnopqrstuvwxyz'') c of
        Some d \<Rightarrow> d
      | None \<Rightarrow> c)"

definition lower :: "string \<Rightarrow> string" where
  "lower s = map lower_char s"

text \<open>\<^verbatim>\<open>int(x)\<close> on a float truncates towards zero.\<close>

definition py_int :: "real \<Rightarrow> int" where
  "py_int x = (if 0 \<le> x then \<lfloor>x\<rfloor> else \<lceil>x\<rceil>)"

text \<open>\<^verbatim>\<open>np.ceil(x)\<close> returns the ceiling as a float.\<close>

definition np_ceil :: "real \<Rightarrow> real" where
  "np_ceil x = of_int \<lceil>x\<rceil>"

subsection \<open>Double arithmetic\<close>

text \<open>
  A double is a real \<open>m * 2^e\<close> with an integer \<open>m\<close>, \<open>\<bar>m\<bar> < 2^53\<close>. The result of a
  float operation is the exact result rounded to the nearest double, a tie going to the
  double with the even \<open>m\<close>. The exponent is not bounded in the model: there is no
  overflow to infinity and no gradual underflow, so the model is that of the doubles of
  magnitude between about \<open>2.2e-308\<close> and \<open>1.8e308\<close>, and of zero. The
  \<^verbatim>\<open>OverflowError\<close> that \<^verbatim>\<open>int()\<close> raises on an infinite float needs a quotient
  beyond that range and has no branch.

  \<open>rne\<close> rounds a real to the nearest integer, ties to even.
\<close>

definition rne :: "real \<Rightarrow> int" where
  "rne x =
     (let n = \<lfloor>x\<rfloor>; r = x - of_int n
      in if r < 1 / 2 then n else if 1 / 2 < r then n + 1 else if even n then n else n + 1)"

text \<open>
  \<open>ilog2 x\<close> is the binary exponent of a positive \<open>x\<close>: the \<open>k\<close> with
  \<open>2^k \<le> x < 2^(k+1)\<close>, found by halving or doubling \<open>x\<close> into \<open>[1, 2)\<close>.
\<close>

function ilog2 :: "real \<Rightarrow> int" where
  "ilog2 x =
     (if x \<le> 0 then 0
      else if 2 \<le> x then ilog2 (x / 2) + 1
      else if x < 1 then ilog2 (x * 2) - 1
      else 0)"
  by pat_completeness auto
termination
proof (relation "measure (\<lambda>x. nat \<lceil>x\<rceil> + 2 * nat \<lceil>1 / x\<rceil>)", goal_cases)
  case 1
  show ?case by simp
next
  case (2 x)
  then have x: "2 \<le> x" by simp
  have "x / 2 \<le> x - 1" using x by simp
  then have "\<lceil>x / 2\<rceil> \<le> \<lceil>x - 1\<rceil>" by (rule ceiling_mono)
  then have a: "\<lceil>x / 2\<rceil> < \<lceil>x\<rceil>" by simp
  have p: "0 < \<lceil>x\<rceil>" using x by (simp add: less_ceiling_iff)
  have a': "nat \<lceil>x / 2\<rceil> < nat \<lceil>x\<rceil>" using a p by linarith
  have "of_int 1 - 1 < 1 / (x / 2)" "1 / (x / 2) \<le> of_int 1" using x by simp_all
  then have b: "\<lceil>1 / (x / 2)\<rceil> = 1" by (simp only: ceiling_eq_iff)
  have "of_int 1 - 1 < 1 / x" "1 / x \<le> of_int 1" using x by simp_all
  then have c: "\<lceil>1 / x\<rceil> = 1" by (simp only: ceiling_eq_iff)
  show ?case using a' by (simp only: in_measure b c)
next
  case (3 x)
  then have x: "0 < x" "x < 1" by simp_all
  have half_less: "\<lceil>y / 2\<rceil> < \<lceil>y\<rceil>" if "1 < y" for y :: real
  proof (cases "2 \<le> y")
    case True
    then have "y / 2 \<le> y - 1" by simp
    then have "\<lceil>y / 2\<rceil> \<le> \<lceil>y - 1\<rceil>" by (rule ceiling_mono)
    then show ?thesis by simp
  next
    case False
    then have "y / 2 \<le> of_int 1" by simp
    then have "\<lceil>y / 2\<rceil> \<le> 1" by (simp only: ceiling_le_iff)
    moreover have "of_int 2 - 1 < y" using that by simp
    then have "2 \<le> \<lceil>y\<rceil>" by (simp only: le_ceiling_iff)
    ultimately show ?thesis by linarith
  qed
  have "x * 2 \<le> of_int 2" using x by simp
  then have a: "\<lceil>x * 2\<rceil> \<le> 2" by (simp only: ceiling_le_iff)
  have "of_int 1 - 1 < x" "x \<le> of_int 1" using x by simp_all
  then have a0: "\<lceil>x\<rceil> = 1" by (simp only: ceiling_eq_iff)
  have gt: "1 < 1 / x" using x by simp
  have "of_int 2 - 1 < 1 / x" using gt by simp
  then have c: "2 \<le> \<lceil>1 / x\<rceil>" by (simp only: le_ceiling_iff)
  have half: "1 / (x * 2) = (1 / x) / 2" by simp
  have e: "\<lceil>1 / (x * 2)\<rceil> < \<lceil>1 / x\<rceil>"
    unfolding half using gt by (rule half_less)
  have n1: "nat \<lceil>x * 2\<rceil> \<le> 2" using a by linarith
  have n2: "nat \<lceil>x\<rceil> = 1" using a0 by simp
  have n3: "nat \<lceil>1 / (x * 2)\<rceil> + 1 \<le> nat \<lceil>1 / x\<rceil>" using e c by linarith
  show ?case unfolding in_measure using n1 n2 n3 by linarith
qed

declare ilog2.simps [simp del]

text \<open>
  \<open>fl x\<close> is the double nearest to \<open>x\<close>: \<open>x\<close> is scaled into \<open>[2^52, 2^53)\<close>,
  rounded to an integer and scaled back.
\<close>

definition fl :: "real \<Rightarrow> real" where
  "fl x =
     (if x = 0 then 0
      else let e = ilog2 \<bar>x\<bar> - 52 in of_int (rne (x / 2 powi e)) * 2 powi e)"

text \<open>
  The float operations \<^verbatim>\<open>/\<close>, \<^verbatim>\<open>*\<close> and \<^verbatim>\<open>+\<close> on two doubles, and the conversion of
  an integer operand to a float.
\<close>

definition fdiv :: "real \<Rightarrow> real \<Rightarrow> real" where
  "fdiv a b = fl (a / b)"

definition fmul :: "real \<Rightarrow> real \<Rightarrow> real" where
  "fmul a b = fl (a * b)"

definition fadd :: "real \<Rightarrow> real \<Rightarrow> real" where
  "fadd a b = fl (a + b)"

definition float_of_int :: "int \<Rightarrow> real" where
  "float_of_int n = fl (of_int n)"

subsection \<open>The data objects\<close>

text \<open>
  The attributes of \<^verbatim>\<open>rundata.clawdata\<close> that \<^verbatim>\<open>setrun\<close> assigns.
\<close>

record clawdata =
  ndim :: int
  xlower :: real
  xupper :: real
  ylower :: real
  yupper :: real
  mx :: int
  my :: int
  meqn :: int
  maux :: int
  mcapa :: int
  t0 :: real
  outstyle :: int
  nout :: int
  tfinal :: real
  tout :: "real list"
  iout :: "int list"
  verbosity :: int
  dt_variable :: int
  dt_initial :: real
  dt_max :: real
  cfl_desired :: real
  cfl_max :: real
  max_steps :: int
  order :: int
  order_trans :: int
  mwaves :: int
  mthlim :: "int list"
  src_split :: int
  mbc :: int
  mthbc_xlower :: int
  mthbc_xupper :: int
  mthbc_ylower :: int
  mthbc_yupper :: int
  mxnest :: int
  inratx :: "int list"
  inraty :: "int list"
  inratt :: "int list"
  auxtype :: "string list"
  tol :: real
  tolsp :: real
  cutoff :: real
  kcheck :: int
  ibuff :: int

text \<open>
  A gauge line \<^verbatim>\<open>[gaugeno, x, y, t1, t2]\<close>.
\<close>

type_synonym gauge = "int \<times> real \<times> real \<times> real \<times> real"

definition gauge_y :: "gauge \<Rightarrow> real" where
  "gauge_y g = fst (snd (snd g))"

definition gauge_t1 :: "gauge \<Rightarrow> real" where
  "gauge_t1 g = fst (snd (snd (snd g)))"

definition gauge_t2 :: "gauge \<Rightarrow> real" where
  "gauge_t2 g = snd (snd (snd (snd g)))"

text \<open>
  The attributes of \<^verbatim>\<open>rundata.geodata\<close> that \<^verbatim>\<open>setgeo\<close> assigns. The four
  registries and the fixed grids are lists of lines; the source leaves them empty.
\<close>

record geodata =
  variable_dt_refinement_ratios :: bool
  gravity :: real
  coordinate_system :: int
  earth_radius :: real
  coriolis_forcing :: bool
  theta_0 :: real
  dry_tolerance :: real
  wave_tolerance :: real
  speed_tolerance :: "real list"
  deep_depth :: real
  max_level_deep :: int
  friction_forcing :: int
  manning_coefficient :: real
  friction_depth :: real
  topofiles :: "(int \<times> int \<times> int \<times> string) list"
  topo_type :: int
  x0 :: real
  x1 :: real
  x2 :: real
  basin_depth :: real
  shelf_depth :: real
  beach_slope :: real
  dtopofiles :: "(int \<times> int \<times> int \<times> string) list"
  qinit_type :: int
  qinitfiles :: "(int \<times> int \<times> string) list"
  regions :: "real list list"
  gauges :: "gauge list"
  fixedgrids :: "real list list"
  layers :: int
  rho :: real
  eta_init :: real
  richardson_tolerance :: real

text \<open>
  The object returned by \<^verbatim>\<open>ClawRunData(claw_pkg, ndim)\<close>. The \<^verbatim>\<open>geodata\<close>
  attribute may be missing: \<^verbatim>\<open>setgeo\<close> tests for it.
\<close>

record rundata =
  clawdata :: clawdata
  geodata :: "geodata option"

text \<open>
  The attributes of the storm object that \<^verbatim>\<open>set_storm\<close> assigns. The Holland
  parameters \<^verbatim>\<open>A\<close> and \<^verbatim>\<open>B\<close> of the source are the fields \<open>holland_A\<close> and
  \<open>holland_B\<close>.
\<close>

record storm_data =
  rho_air :: real
  ambient_pressure :: real
  wind_forcing :: bool
  pressure_forcing :: bool
  wind_tolerance :: real
  pressure_tolerance :: real
  wind_refine :: "real list"
  R_refine :: "real list"
  storm_type :: int
  ramp_up_t :: real
  velocity :: "real \<times> real"
  R_eye_init :: "real \<times> real"
  holland_A :: real
  holland_B :: real
  Pc :: real

subsection \<open>The literals of the source as parameters\<close>

text \<open>
  The module has one input, the package name. Every other quantity is a literal in the
  source text. The literals below are the ones a user of the script edits (the ramp-up
  constant, the output schedule, the gauge placement, the storm's refinement thresholds
  and central pressure); the functions take them as a record, and \<open>source_params\<close>
  holds the values written in the source.

  \<^item> \<open>RAMP_UP_TIME\<close>: the module constant \<^verbatim>\<open>RAMP_UP_TIME = 12 * 60**2\<close>.
  \<^item> \<open>outstyle_lit\<close>: \<^verbatim>\<open>clawdata.outstyle = 1\<close>.
  \<^item> \<open>num_hours\<close>: \<^verbatim>\<open>num_hours = 40\<close>.
  \<^item> \<open>step\<close>: \<^verbatim>\<open>step = 0.25\<close>. It is a float, so both divisions of the style 1
    branch are float divisions, whether \<open>num_hours\<close> and \<open>RAMP_UP_TIME\<close> are
    integers or floats. A parameter holds the double of its literal: \<open>fl 0.55\<close> for
    the literal \<^verbatim>\<open>0.55\<close>.
  \<^item> \<open>tout_lit\<close>: \<^verbatim>\<open>clawdata.tout = [0.0,1.0,2.0,3.0,4.0]\<close> of the style 2 branch.
  \<^item> \<open>N_gauges\<close>: \<^verbatim>\<open>N_gauges = 21\<close>.
  \<^item> \<open>gauge_span\<close> and \<open>gauge_offset\<close>: the \<^verbatim>\<open>550e3\<close> and \<^verbatim>\<open>-275e3\<close> of
    \<^verbatim>\<open>y = 550e3 / (N_gauges + 1) * (i+1) + -275e3\<close>.
  \<^item> \<open>wind_refine_lit\<close>, \<open>R_refine_lit\<close>: \<^verbatim>\<open>[20.0,40.0,60.0]\<close> and
    \<^verbatim>\<open>[60.0e3,40e3,20e3]\<close>.
  \<^item> \<open>Pc_millibar\<close>: the \<^verbatim>\<open>950.0\<close> of \<^verbatim>\<open>data.Pc = 950.0 * 1e2\<close>.
\<close>

record params =
  RAMP_UP_TIME :: real
  outstyle_lit :: int
  num_hours :: real
  step :: real
  tout_lit :: "real list"
  N_gauges :: int
  gauge_span :: real
  gauge_offset :: real
  wind_refine_lit :: "real list"
  R_refine_lit :: "real list"
  Pc_millibar :: real

definition source_params :: params where
  "source_params =
     \<lparr> RAMP_UP_TIME = 12 * 60\<^sup>2,
       outstyle_lit = 1,
       num_hours = 40,
       step = 0.25,
       tout_lit = [0, 1, 2, 3, 4],
       N_gauges = 21,
       gauge_span = 550000,
       gauge_offset = - 275000,
       wind_refine_lit = [20, 40, 60],
       R_refine_lit = [60000, 40000, 20000],
       Pc_millibar = 950 \<rparr>"

subsection \<open>setgeo\<close>

text \<open>
  The loop \<^verbatim>\<open>for i in xrange(0,N_gauges)\<close>, over the list of its indices: each
  round appends one gauge line. The divisor \<^verbatim>\<open>N_gauges + 1\<close> is positive in every
  round, since a round needs \<open>0 < N_gauges\<close>. The expression
  \<^verbatim>\<open>550e3 / (N_gauges + 1) * (i+1) + -275e3\<close> is a float division, a float product and
  a float sum, from left to right, the two integers being converted to floats.
\<close>

fun gauge_loop :: "params \<Rightarrow> int list \<Rightarrow> gauge list \<Rightarrow> gauge list" where
  "gauge_loop p [] gs = gs"
| "gauge_loop p (i # is) gs =
     (let x = 455000;
          y = fadd (fmul (fdiv (gauge_span p) (float_of_int (N_gauges p + 1)))
                         (float_of_int (i + 1)))
                   (gauge_offset p)
      in gauge_loop p is (gs @ [(i, x, y, 0, 10 ^ 10)]))"

definition setgeo_p :: "params \<Rightarrow> rundata \<Rightarrow> error + rundata" where
  "setgeo_p p rundata =
     (case geodata rundata of
        None \<Rightarrow> Inl (AttributeError ''Missing geodata attribute'')
      | Some g \<Rightarrow>
          Inr (rundata\<lparr> geodata := Some (g\<lparr>
            variable_dt_refinement_ratios := True,
            gravity := 9.81,
            coordinate_system := 1,
            earth_radius := 6367500,
            coriolis_forcing := True,
            theta_0 := 45,
            dry_tolerance := 0.01,
            wave_tolerance := 0.5,
            speed_tolerance := [0.25, 0.5, 1, 2, 3, 4],
            deep_depth := 200,
            max_level_deep := 4,
            friction_forcing := 1,
            manning_coefficient := 0.025,
            friction_depth := 1000000,
            topofiles := [],
            topo_type := 2,
            x0 := 350000,
            x1 := 450000,
            x2 := 480000,
            basin_depth := - 3000,
            shelf_depth := - 200,
            beach_slope := 0.05,
            dtopofiles := [],
            qinit_type := 0,
            qinitfiles := [],
            regions := [],
            gauges := gauge_loop p [0 .. N_gauges p - 1] [],
            fixedgrids := [],
            layers := 1,
            rho := 1025,
            eta_init := 0,
            richardson_tolerance := 0.95 \<rparr>) \<rparr>))"

definition setgeo :: "rundata \<Rightarrow> error + rundata" where
  "setgeo = setgeo_p source_params"

subsection \<open>setrun\<close>

text \<open>
  \<^verbatim>\<open>ClawRunData\<close> is imported from the Clawpack library; \<^verbatim>\<open>setrun\<close> takes it as
  its first argument here. The assertion comes before the call of the constructor. In the
  style 1 branch a float division raises \<^verbatim>\<open>ZeroDivisionError\<close> when its divisor is
  zero: \<^verbatim>\<open>step\<close> for the first division, \<^verbatim>\<open>step*60**2\<close> for the second.
\<close>

definition setrun_p ::
  "params \<Rightarrow> (string \<Rightarrow> int \<Rightarrow> rundata) \<Rightarrow> string \<Rightarrow> error + rundata" where
  "setrun_p p ClawRunData claw_pkg =
     (if lower claw_pkg \<noteq> ''geoclaw''
      then Inl (AssertionError (''Expected claw_pkg = 'geoclaw'' @ [CHR 0x27]))
      else
        let ndim_v = 2;
            rundata = ClawRunData claw_pkg ndim_v
        in case setgeo_p p rundata of
             Inl e \<Rightarrow> Inl e
           | Inr rundata \<Rightarrow>
               let c = (clawdata rundata)\<lparr>
                     ndim := ndim_v,
                     xlower := - 200000,
                     xupper := 500000,
                     ylower := - 300000,
                     yupper := 300000,
                     mx := 70,
                     my := 60,
                     meqn := 3,
                     maux := 9,
                     mcapa := 0,
                     t0 := - RAMP_UP_TIME p,
                     outstyle := outstyle_lit p \<rparr>
               in (case
                    (if outstyle c = 1 then
                       if step p = 0 then Inl ZeroDivisionError
                       else if fmul (step p) (60\<^sup>2) = 0 then Inl ZeroDivisionError
                       else Inr (c\<lparr>
                         nout := py_int (fdiv (num_hours p) (step p))
                                 + py_int (np_ceil (fdiv (RAMP_UP_TIME p)
                                                         (fmul (step p) (60\<^sup>2)))),
                         tfinal := fmul (num_hours p) (60\<^sup>2) \<rparr>)
                     else if outstyle c = 2 then
                       Inr (c\<lparr> tout := tout_lit p, nout := int (length (tout_lit p)) \<rparr>)
                     else if outstyle c = 3 then
                       Inr (c\<lparr> iout := [1, 100] \<rparr>)
                     else Inr c)
                  of
                    Inl e \<Rightarrow> Inl e
                  | Inr c \<Rightarrow>
                      Inr (rundata\<lparr> clawdata := c\<lparr>
                        verbosity := 2,
                        dt_variable := 1,
                        dt_initial := 0.016,
                        dt_max := 10 ^ 99,
                        cfl_desired := 0.75,
                        cfl_max := 1,
                        max_steps := 5000,
                        order := 2,
                        order_trans := 2,
                        mwaves := 3,
                        mthlim := [3, 3, 3],
                        src_split := 1,
                        mbc := 2,
                        mthbc_xlower := 1,
                        mthbc_xupper := 1,
                        mthbc_ylower := 1,
                        mthbc_yupper := 1,
                        mxnest := - 5,
                        inratx := [2, 2, 2, 2, 2],
                        inraty := [2, 2, 2, 2, 2],
                        inratt := [2, 2, 2, 2, 2],
                        auxtype := [''center'', ''center'', ''center'', ''center'', ''center'',
                                    ''center'', ''center'', ''center'', ''center''],
                        tol := - 1,
                        tolsp := 0.5,
                        cutoff := 0.7,
                        kcheck := 3,
                        ibuff := 2 \<rparr> \<rparr>)))"

definition setrun :: "(string \<Rightarrow> int \<Rightarrow> rundata) \<Rightarrow> string \<Rightarrow> error + rundata" where
  "setrun = setrun_p source_params"

subsection \<open>set_storm\<close>

text \<open>
  \<^verbatim>\<open>StormData()\<close> is the constructor of the surge library; the fresh object is the
  first argument of \<open>set_storm\<close> here.
\<close>

definition set_storm_p :: "params \<Rightarrow> storm_data \<Rightarrow> storm_data" where
  "set_storm_p p StormData =
     (let data = StormData\<lparr>
            rho_air := 1.15,
            ambient_pressure := 101500,
            wind_forcing := True,
            pressure_forcing := True,
            wind_tolerance := 1 / 10 ^ 6,
            pressure_tolerance := 1 / 10 ^ 4,
            wind_refine := wind_refine_lit p,
            R_refine := R_refine_lit p,
            storm_type := 2 \<rparr>;
          velocity_v = 5;
          angle = 0
      in data\<lparr>
            ramp_up_t := RAMP_UP_TIME p,
            velocity := (velocity_v * cos angle, velocity_v * sin angle),
            R_eye_init := (0, 0),
            holland_A := 23,
            holland_B := 1.5,
            Pc := Pc_millibar p * 10\<^sup>2 \<rparr>)"

definition set_storm :: "storm_data \<Rightarrow> storm_data" where
  "set_storm = set_storm_p source_params"

subsection \<open>The script entry\<close>

text \<open>
  The \<^verbatim>\<open>__main__\<close> block: \<^verbatim>\<open>setrun(sys.argv[1])\<close> when there is one command-line
  argument, \<^verbatim>\<open>setrun()\<close> with the default \<^verbatim>\<open>claw_pkg='geoclaw'\<close> otherwise; then
  \<^verbatim>\<open>set_storm()\<close>. The two \<^verbatim>\<open>write()\<close> calls hand the objects to the library; the
  model returns the objects.
\<close>

definition main ::
  "(string \<Rightarrow> int \<Rightarrow> rundata) \<Rightarrow> storm_data \<Rightarrow> string list \<Rightarrow> error + rundata \<times> storm_data" where
  "main ClawRunData StormData argv =
     (case (if length argv = 2 then setrun ClawRunData (argv ! 1)
            else setrun ClawRunData ''geoclaw'') of
        Inl e \<Rightarrow> Inl e
      | Inr rundata \<Rightarrow> Inr (rundata, set_storm StormData))"

subsection \<open>Reading the result\<close>

text \<open>
  An attribute of the \<^verbatim>\<open>clawdata\<close> object of a run, or the error of the run.
\<close>

definition read_clawdata :: "(clawdata \<Rightarrow> 'a) \<Rightarrow> error + rundata \<Rightarrow> error + 'a" where
  "read_clawdata f r =
     (case r of Inl e \<Rightarrow> Inl e | Inr rundata \<Rightarrow> Inr (f (clawdata rundata)))"

text \<open>
  The gauge lines of a run: \<open>None\<close> when the run failed or the object has no
  \<^verbatim>\<open>geodata\<close>.
\<close>

definition gauges_of :: "error + rundata \<Rightarrow> gauge list option" where
  "gauges_of r =
     (case r of
        Inl e \<Rightarrow> None
      | Inr rundata \<Rightarrow> (case geodata rundata of None \<Rightarrow> None | Some g \<Rightarrow> Some (gauges g)))"

text \<open>
  The y-coordinate of gauge line \<open>i\<close> of a run, when there is such a line.
\<close>

definition gauge_y_at :: "error + rundata \<Rightarrow> nat \<Rightarrow> real option" where
  "gauge_y_at r i =
     (case gauges_of r of
        None \<Rightarrow> None
      | Some gs \<Rightarrow> if i < length gs then Some (gauge_y (gs ! i)) else None)"

subsection \<open>Library objects for evaluation\<close>

text \<open>
  The constructors \<^verbatim>\<open>ClawRunData\<close> and \<^verbatim>\<open>StormData\<close> belong to the Clawpack
  library. Where a function is evaluated on a concrete input below, the library objects
  are the following ones: every attribute holds 0, False or the empty list, the run object
  gets the number of dimensions it is given and carries both data attributes.
\<close>

definition empty_clawdata :: clawdata where
  "empty_clawdata =
     \<lparr> ndim = 0, xlower = 0, xupper = 0, ylower = 0, yupper = 0, mx = 0, my = 0,
       meqn = 0, maux = 0, mcapa = 0, t0 = 0, outstyle = 0, nout = 0, tfinal = 0,
       tout = [], iout = [], verbosity = 0, dt_variable = 0, dt_initial = 0, dt_max = 0,
       cfl_desired = 0, cfl_max = 0, max_steps = 0, order = 0, order_trans = 0,
       mwaves = 0, mthlim = [], src_split = 0, mbc = 0, mthbc_xlower = 0,
       mthbc_xupper = 0, mthbc_ylower = 0, mthbc_yupper = 0, mxnest = 0, inratx = [],
       inraty = [], inratt = [], auxtype = [], tol = 0, tolsp = 0, cutoff = 0,
       kcheck = 0, ibuff = 0 \<rparr>"

definition empty_geodata :: geodata where
  "empty_geodata =
     \<lparr> variable_dt_refinement_ratios = False, gravity = 0, coordinate_system = 0,
       earth_radius = 0, coriolis_forcing = False, theta_0 = 0, dry_tolerance = 0,
       wave_tolerance = 0, speed_tolerance = [], deep_depth = 0, max_level_deep = 0,
       friction_forcing = 0, manning_coefficient = 0, friction_depth = 0, topofiles = [],
       topo_type = 0, x0 = 0, x1 = 0, x2 = 0, basin_depth = 0, shelf_depth = 0,
       beach_slope = 0, dtopofiles = [], qinit_type = 0, qinitfiles = [], regions = [],
       gauges = [], fixedgrids = [], layers = 0, rho = 0, eta_init = 0,
       richardson_tolerance = 0 \<rparr>"

definition empty_storm :: storm_data where
  "empty_storm =
     \<lparr> rho_air = 0, ambient_pressure = 0, wind_forcing = False, pressure_forcing = False,
       wind_tolerance = 0, pressure_tolerance = 0, wind_refine = [], R_refine = [],
       storm_type = 0, ramp_up_t = 0, velocity = (0, 0), R_eye_init = (0, 0),
       holland_A = 0, holland_B = 0, Pc = 0 \<rparr>"

definition empty_rundata :: "string \<Rightarrow> int \<Rightarrow> rundata" where
  "empty_rundata pkg nd =
     \<lparr> clawdata = empty_clawdata\<lparr> ndim := nd \<rparr>, geodata = Some empty_geodata \<rparr>"

section \<open>Properties\<close>

subsection \<open>Rounding to a double\<close>

text \<open>
  Facts about \<open>ilog2\<close>, \<open>rne\<close> and \<open>fl\<close>: the rounding keeps the sign and the
  order, returns a double unchanged (an integer up to \<open>2^53\<close> in particular), is zero
  only at zero, and exceeds a positive real by at most the factor \<open>1 + 2^-53\<close>.
\<close>

lemma ilog2_pos_cases:
  assumes "0 < x"
  shows "2 \<le> x \<Longrightarrow> ilog2 x = ilog2 (x / 2) + 1"
    and "x < 1 \<Longrightarrow> ilog2 x = ilog2 (x * 2) - 1"
    and "1 \<le> x \<Longrightarrow> x < 2 \<Longrightarrow> ilog2 x = 0"
  using assms by (subst ilog2.simps; simp)+

lemma ilog2_bounds:
  "0 < x \<Longrightarrow> 2 powi ilog2 x \<le> x \<and> x < 2 powi (ilog2 x + 1)"
proof (induction x rule: ilog2.induct)
  case (1 x)
  consider "2 \<le> x" | "x < 1" | "1 \<le> x" "x < 2" by linarith
  then show ?case
  proof cases
    case 1
    then have e: "ilog2 x = ilog2 (x / 2) + 1" using "1.prems" by (rule ilog2_pos_cases(1)[rotated])
    have ih: "2 powi ilog2 (x / 2) \<le> x / 2 \<and> x / 2 < 2 powi (ilog2 (x / 2) + 1)"
      using "1.IH"(1) 1 "1.prems" by simp
    have p: "(2::real) powi (ilog2 (x / 2) + 1) = 2 powi ilog2 (x / 2) * 2"
      by (rule power_int_add_1) simp
    have q: "(2::real) powi (ilog2 (x / 2) + 1 + 1) = 2 powi (ilog2 (x / 2) + 1) * 2"
      by (rule power_int_add_1) simp
    show ?thesis unfolding e q using ih p by linarith
  next
    case 2
    then have e: "ilog2 x = ilog2 (x * 2) - 1" using "1.prems" by (rule ilog2_pos_cases(2)[rotated])
    have ih: "2 powi ilog2 (x * 2) \<le> x * 2 \<and> x * 2 < 2 powi (ilog2 (x * 2) + 1)"
      using "1.IH"(2) 2 "1.prems" by simp
    have p: "(2::real) powi (ilog2 (x * 2) - 1 + 1) = 2 powi (ilog2 (x * 2) - 1) * 2"
      by (rule power_int_add_1) simp
    have q: "(2::real) powi (ilog2 (x * 2) + 1) = 2 powi (ilog2 (x * 2)) * 2"
      by (rule power_int_add_1) simp
    have r: "ilog2 (x * 2) - 1 + 1 = ilog2 (x * 2)" by simp
    show ?thesis unfolding e using ih p q unfolding r by linarith
  next
    case 3
    then have e: "ilog2 x = 0" using "1.prems" ilog2_pos_cases(3) by blast
    show ?thesis unfolding e using 3 by simp
  qed
qed

lemma pow2_less_exp:
  assumes "(2::real) powi a < 2 powi b"
  shows "a < b"
proof (rule ccontr)
  assume "\<not> a < b"
  then have "b \<le> a" by simp
  then have "(2::real) powi b \<le> 2 powi a" by (intro power_int_increasing) simp_all
  with assms show False by simp
qed

lemma ilog2_unique:
  assumes "2 powi k \<le> x" "x < 2 powi (k + 1)"
  shows "ilog2 x = k"
proof -
  have x: "0 < x" using assms(1) zero_less_power_int[of "2::real" k] by linarith
  note b = ilog2_bounds[OF x]
  have "(2::real) powi ilog2 x < 2 powi (k + 1)" using b assms by linarith
  then have 1: "ilog2 x < k + 1"
    by (rule pow2_less_exp)
  have "(2::real) powi k < 2 powi (ilog2 x + 1)" using b assms by linarith
  then have 2: "k < ilog2 x + 1"
    by (rule pow2_less_exp)
  from 1 2 show ?thesis by simp
qed

lemma ilog2_mono:
  assumes "0 < x" "x \<le> y"
  shows "ilog2 x \<le> ilog2 y"
proof -
  have y: "0 < y" using assms by simp
  have "(2::real) powi ilog2 x < 2 powi (ilog2 y + 1)"
    using ilog2_bounds[OF assms(1)] ilog2_bounds[OF y] assms(2) by linarith
  then have "ilog2 x < ilog2 y + 1"
    by (rule pow2_less_exp)
  then show ?thesis by simp
qed

lemma rne_bounds: "\<lfloor>x\<rfloor> \<le> rne x \<and> rne x \<le> \<lfloor>x\<rfloor> + 1"
  by (simp add: rne_def Let_def)

lemma rne_near: "of_int (rne x) \<le> x + 1 / 2 \<and> x - 1 / 2 \<le> of_int (rne x)"
  unfolding rne_def Let_def by (auto; linarith)

lemma rne_of_int: "rne (of_int n) = n"
  by (simp add: rne_def)

lemma rne_mono:
  assumes "x \<le> y"
  shows "rne x \<le> rne y"
proof (cases "\<lfloor>x\<rfloor> = \<lfloor>y\<rfloor>")
  case True
  have "x - of_int \<lfloor>x\<rfloor> \<le> y - of_int \<lfloor>y\<rfloor>" using assms True by simp
  then show ?thesis unfolding rne_def Let_def using True by auto
next
  case False
  then have "\<lfloor>x\<rfloor> < \<lfloor>y\<rfloor>" using floor_mono[OF assms] by simp
  then show ?thesis using rne_bounds[of x] rne_bounds[of y] by linarith
qed

lemma rne_uminus: "rne (- x) = - rne x"
proof (cases "x = of_int \<lfloor>x\<rfloor>")
  case True
  then obtain n where "x = of_int n" ..
  then show ?thesis by (simp add: rne_of_int flip: of_int_minus)
next
  case False
  have fm: "\<lfloor>- x\<rfloor> = - \<lfloor>x\<rfloor> - 1" using False by (simp add: floor_minus ceiling_altdef)
  define n where "n = \<lfloor>x\<rfloor>"
  define r where "r = x - of_int n"
  have r': "- x - of_int (- n - 1) = 1 - r" by (simp add: r_def)
  have ev: "even (- n - 1) \<longleftrightarrow> odd n" by simp
  show ?thesis
    unfolding rne_def Let_def fm n_def[symmetric] r' r_def[symmetric] ev
    by auto
qed

lemma pow2_shift: "(2::real) powi a = 2 powi (a - int n) * 2 ^ n"
  using power_int_add[of "2::real" "a - int n" "int n"] by simp

lemma fl_uminus: "fl (- x) = - fl x"
  by (simp add: fl_def Let_def rne_uminus)

lemma fl_0: "fl 0 = 0"
  by (simp add: fl_def)

lemma fl_pos_unfold:
  assumes "0 < x"
  shows "fl x = of_int (rne (x / 2 powi (ilog2 x - 52))) * 2 powi (ilog2 x - 52)"
  using assms by (simp add: fl_def Let_def)

lemma scaled_range:
  assumes "0 < x"
  shows "2 ^ 52 \<le> x / 2 powi (ilog2 x - 52)" and "x / 2 powi (ilog2 x - 52) < 2 ^ 53"
proof -
  define e where "e = ilog2 x - 52"
  have pe: "(0::real) < 2 powi e" by simp
  have s1: "(2::real) powi ilog2 x = 2 powi e * 2 ^ 52"
    unfolding e_def using pow2_shift[of "ilog2 x" 52] by simp
  have "ilog2 x + 1 - int 53 = e" by (simp add: e_def)
  then have s2: "(2::real) powi (ilog2 x + 1) = 2 powi e * 2 ^ 53"
    using pow2_shift[of "ilog2 x + 1" 53] by simp
  have b: "2 powi e * 2 ^ 52 \<le> x" "x < 2 powi e * 2 ^ 53"
    using ilog2_bounds[OF assms] unfolding s1 s2 by simp_all
  show "2 ^ 52 \<le> x / 2 powi (ilog2 x - 52)"
    unfolding e_def[symmetric] using b(1) pe by (simp add: pos_le_divide_eq mult.commute)
  show "x / 2 powi (ilog2 x - 52) < 2 ^ 53"
    unfolding e_def[symmetric] using b(2) pe by (simp add: pos_divide_less_eq mult.commute)
qed


lemma rne_scaled_range:
  assumes "0 < x"
  shows "2 ^ 52 \<le> rne (x / 2 powi (ilog2 x - 52))" and "rne (x / 2 powi (ilog2 x - 52)) \<le> 2 ^ 53"
proof -
  define t where "t = x / 2 powi (ilog2 x - 52)"
  have "of_int (2 ^ 52) \<le> t" using scaled_range(1)[OF assms] by (simp add: t_def)
  then have "rne (of_int (2 ^ 52)) \<le> rne t" by (rule rne_mono)
  then show "2 ^ 52 \<le> rne (x / 2 powi (ilog2 x - 52))" by (simp only: rne_of_int t_def)
  have "t \<le> of_int (2 ^ 53)" using scaled_range(2)[OF assms] by (simp add: t_def)
  then have "rne t \<le> rne (of_int (2 ^ 53))" by (rule rne_mono)
  then show "rne (x / 2 powi (ilog2 x - 52)) \<le> 2 ^ 53" by (simp only: rne_of_int t_def)
qed

lemma fl_pos_range:
  assumes "0 < x"
  shows "2 powi ilog2 x \<le> fl x" and "fl x \<le> 2 powi (ilog2 x + 1)"
proof -
  define e where "e = ilog2 x - 52"
  define r :: real where "r = of_int (rne (x / 2 powi e))"
  have pe: "(0::real) < 2 powi e" by simp
  have s1: "(2::real) powi ilog2 x = 2 powi e * 2 ^ 52"
    unfolding e_def using pow2_shift[of "ilog2 x" 52] by simp
  have "ilog2 x + 1 - int 53 = e" by (simp add: e_def)
  then have s2: "(2::real) powi (ilog2 x + 1) = 2 powi e * 2 ^ 53"
    using pow2_shift[of "ilog2 x + 1" 53] by simp
  have f: "fl x = r * 2 powi e" unfolding r_def e_def by (rule fl_pos_unfold[OF assms])
  have "(of_int (2 ^ 52) :: real) \<le> r"
    unfolding r_def e_def using rne_scaled_range(1)[OF assms] by (simp only: of_int_le_iff)
  then have r1: "2 ^ 52 \<le> r" by simp
  have "r \<le> (of_int (2 ^ 53) :: real)"
    unfolding r_def e_def using rne_scaled_range(2)[OF assms] by (simp only: of_int_le_iff)
  then have r2: "r \<le> 2 ^ 53" by simp
  have "2 ^ 52 * 2 powi e \<le> r * 2 powi e" using r1 pe by (rule mult_right_mono[OF _ less_imp_le])
  then show "2 powi ilog2 x \<le> fl x" unfolding f s1 by (simp only: mult.commute)
  have "r * 2 powi e \<le> 2 ^ 53 * 2 powi e" using r2 pe by (rule mult_right_mono[OF _ less_imp_le])
  then show "fl x \<le> 2 powi (ilog2 x + 1)" unfolding f s2 by (simp only: mult.commute)
qed

lemma fl_pos: "0 < x \<Longrightarrow> 0 < fl x"
  using fl_pos_range(1)[of x] zero_less_power_int[of "2::real" "ilog2 x"] by linarith

lemma fl_mono_pos:
  assumes "0 < x" "x \<le> y"
  shows "fl x \<le> fl y"
proof -
  have y: "0 < y" using assms by simp
  have le: "ilog2 x \<le> ilog2 y" using assms by (rule ilog2_mono)
  show ?thesis
  proof (cases "ilog2 x = ilog2 y")
    case True
    define e where "e = ilog2 y - 52"
    have pe: "(0::real) < 2 powi e" by simp
    have "x / 2 powi e \<le> y / 2 powi e" using assms(2) pe by (simp add: divide_right_mono)
    then have "rne (x / 2 powi e) \<le> rne (y / 2 powi e)" by (rule rne_mono)
    then have "(of_int (rne (x / 2 powi e)) :: real) \<le> of_int (rne (y / 2 powi e))" by simp
    then have "of_int (rne (x / 2 powi e)) * 2 powi e \<le> of_int (rne (y / 2 powi e)) * (2::real) powi e"
      using pe by (rule mult_right_mono[OF _ less_imp_le])
    then show ?thesis
      unfolding fl_pos_unfold[OF assms(1)] fl_pos_unfold[OF y] True e_def .
  next
    case False
    then have "ilog2 x + 1 \<le> ilog2 y" using le by simp
    then have "(2::real) powi (ilog2 x + 1) \<le> 2 powi ilog2 y"
      by (intro power_int_increasing) simp_all
    then show ?thesis using fl_pos_range(2)[OF assms(1)] fl_pos_range(1)[OF y] by linarith
  qed
qed

lemma fl_nonneg: "0 \<le> x \<Longrightarrow> 0 \<le> fl x"
  using fl_pos[of x] by (cases "x = 0") (simp_all add: fl_0 less_imp_le)

lemma fl_mono:
  assumes "x \<le> y"
  shows "fl x \<le> fl y"
proof -
  consider "0 < x" | "x \<le> 0" "0 \<le> y" | "y < 0" by linarith
  then show ?thesis
  proof cases
    case 1
    then show ?thesis using assms by (rule fl_mono_pos)
  next
    case 2
    have "0 \<le> fl (- x)" using 2 by (intro fl_nonneg) simp
    then have a: "fl x \<le> 0" by (simp add: fl_uminus)
    have b: "0 \<le> fl y" using 2 by (intro fl_nonneg)
    from a b show ?thesis by linarith
  next
    case 3
    then have "0 < - y" "- y \<le> - x" using assms by simp_all
    then have "fl (- y) \<le> fl (- x)" by (rule fl_mono_pos)
    then show ?thesis by (simp add: fl_uminus)
  qed
qed

lemma fl_eq_0_iff: "fl x = 0 \<longleftrightarrow> x = 0"
proof
  assume z: "fl x = 0"
  show "x = 0"
  proof (rule ccontr)
    assume "x \<noteq> 0"
    then consider "0 < x" | "0 < - x" by linarith
    then show False
    proof cases
      case 1 then show False using fl_pos[of x] z by simp
    next
      case 2 then show False using fl_pos[of "- x"] z by (simp add: fl_uminus)
    qed
  qed
qed (simp add: fl_0)

lemma fl_exact_pos:
  fixes m :: int
  assumes "0 < m" "m < 2 ^ 53"
  shows "fl (of_int m * 2 powi k) = of_int m * 2 powi k"
proof -
  define x :: real where "x = of_int m * 2 powi k"
  have x: "0 < x" using assms(1) by (simp add: x_def)
  define e where "e = ilog2 x - 52"
  have pe: "(0::real) < 2 powi e" by simp
  have "(of_int m :: real) < of_int (2 ^ 53)" using assms(2) by (simp only: of_int_less_iff)
  then have m53: "(of_int m :: real) < 2 ^ 53" by simp
  have "2 powi ilog2 x \<le> x" using ilog2_bounds[OF x] by simp
  also have "x < 2 ^ 53 * 2 powi k"
    unfolding x_def using m53 by (rule mult_strict_right_mono) simp
  also have "\<dots> = 2 powi (k + int 53)" using pow2_shift[of "k + int 53" 53] by simp
  finally have "(2::real) powi ilog2 x < 2 powi (k + int 53)" .
  then have "ilog2 x < k + int 53" by (rule pow2_less_exp)
  then have ek: "0 \<le> k - e" by (simp add: e_def)
  have "(2::real) powi k = 2 powi (k - int (nat (k - e))) * 2 ^ nat (k - e)"
    by (rule pow2_shift)
  also have "k - int (nat (k - e)) = e" using ek by simp
  finally have pk: "(2::real) powi k = 2 powi e * 2 ^ nat (k - e)" .
  have "x / 2 powi e = of_int m * 2 ^ nat (k - e)" unfolding x_def pk using pe by simp
  then have t: "x / 2 powi e = of_int (m * 2 ^ nat (k - e))" by simp
  have "fl x = of_int (rne (x / 2 powi e)) * 2 powi e"
    unfolding e_def by (rule fl_pos_unfold[OF x])
  also have "\<dots> = (x / 2 powi e) * 2 powi e" unfolding t rne_of_int ..
  also have "\<dots> = x" using pe by simp
  finally show ?thesis unfolding x_def .
qed

lemma fl_exact:
  fixes m :: int
  assumes "\<bar>m\<bar> < 2 ^ 53"
  shows "fl (of_int m * 2 powi k) = of_int m * 2 powi k"
proof -
  consider "0 < m" | "m = 0" | "0 < - m" by linarith
  then show ?thesis
  proof cases
    case 1 then show ?thesis using assms by (intro fl_exact_pos) simp_all
  next
    case 2 then show ?thesis by (simp add: fl_0)
  next
    case 3
    then have "fl (of_int (- m) * 2 powi k) = of_int (- m) * 2 powi k"
      using assms by (intro fl_exact_pos) simp_all
    then show ?thesis using fl_uminus[of "of_int m * 2 powi k"] by simp
  qed
qed

lemma fl_of_int:
  fixes n :: int
  assumes "\<bar>n\<bar> \<le> 2 ^ 53"
  shows "fl (of_int n) = of_int n"
proof (cases "\<bar>n\<bar> = 2 ^ 53")
  case True
  have p: "fl (of_int 1 * 2 powi 53) = of_int 1 * 2 powi 53" by (rule fl_exact) simp
  from True consider "n = 2 ^ 53" | "n = - (2 ^ 53)" by linarith
  then show ?thesis
  proof cases
    case 1 then show ?thesis using p by simp
  next
    case 2 then show ?thesis using p fl_uminus[of "2 ^ 53"] by simp
  qed
next
  case False
  then have "\<bar>n\<bar> < 2 ^ 53" using assms by simp
  from fl_exact[OF this, of 0] show ?thesis by simp
qed

lemma fl_rel_upper:
  assumes "0 < x"
  shows "fl x \<le> x * (1 + 1 / 2 ^ 53)"
proof -
  define e where "e = ilog2 x - 52"
  define t where "t = x / 2 powi e"
  have pe: "(0::real) < 2 powi e" by simp
  have t1: "2 ^ 52 \<le> t" unfolding t_def e_def by (rule scaled_range(1)[OF assms])
  have "of_int (rne t) \<le> t + 1 / 2" using rne_near[of t] by simp
  also have "\<dots> \<le> t + t / 2 ^ 53" using t1 by simp
  finally have r: "of_int (rne t) \<le> t * (1 + 1 / 2 ^ 53)" by (simp add: algebra_simps)
  have f: "fl x = of_int (rne t) * 2 powi e"
    unfolding t_def e_def by (rule fl_pos_unfold[OF assms])
  have "of_int (rne t) * 2 powi e \<le> t * (1 + 1 / 2 ^ 53) * 2 powi e"
    using r pe by (rule mult_right_mono[OF _ less_imp_le])
  also have "\<dots> = x * (1 + 1 / 2 ^ 53)" using pe by (simp add: t_def)
  finally show ?thesis unfolding f .
qed

subsection \<open>Auxiliary facts\<close>

lemma fl_int_numeral_eval:
  "fl 160 = 160" "fl 900 = 900" "fl 48 = 48" "fl 144000 = 144000"
  using fl_of_int[of 160] fl_of_int[of 900] fl_of_int[of 48] fl_of_int[of 144000] by simp_all

lemma py_int_nonneg: "0 \<le> x \<Longrightarrow> py_int x = \<lfloor>x\<rfloor>"
  by (simp add: py_int_def)

lemma py_int_np_ceil: "py_int (np_ceil x) = \<lceil>x\<rceil>"
  by (simp add: py_int_def np_ceil_def)

lemma py_int_mono:
  assumes "x \<le> y"
  shows "py_int x \<le> py_int y"
proof (cases "0 \<le> x")
  case True
  then have "0 \<le> y" using assms by simp
  with True show ?thesis using assms by (simp add: py_int_def floor_mono)
next
  case False
  show ?thesis
  proof (cases "0 \<le> y")
    case True
    have "\<lceil>x\<rceil> \<le> 0" using False by (simp add: ceiling_le_zero)
    moreover have "0 \<le> \<lfloor>y\<rfloor>" using True by simp
    ultimately have "\<lceil>x\<rceil> \<le> \<lfloor>y\<rfloor>" by (rule order_trans)
    moreover have "py_int x = \<lceil>x\<rceil>" using False by (simp add: py_int_def)
    moreover have "py_int y = \<lfloor>y\<rfloor>" using True by (simp add: py_int_def)
    ultimately show ?thesis by (simp only:)
  next
    case y: False
    then show ?thesis using False assms by (simp add: py_int_def ceiling_mono)
  qed
qed

lemma setgeo_p_Some:
  "geodata rd = Some g \<Longrightarrow>
     \<exists>g'. setgeo_p p rd = Inr (rd\<lparr>geodata := Some g'\<rparr>)
        \<and> gauges g' = gauge_loop p [0 .. N_gauges p - 1] []"
  unfolding setgeo_p_def by (simp, rule exI, rule conjI, rule refl, simp)

lemma setgeo_p_None:
  "geodata rd = None \<Longrightarrow> setgeo_p p rd = Inl (AttributeError ''Missing geodata attribute'')"
  by (simp add: setgeo_p_def)

lemma setrun_p_reject:
  "lower s \<noteq> ''geoclaw'' \<Longrightarrow> setrun_p p C s = Inl (AssertionError (''Expected claw_pkg = 'geoclaw'' @ [CHR 0x27]))"
  by (simp add: setrun_p_def)

lemma fmul_step_nonzero: "step p \<noteq> 0 \<Longrightarrow> fmul (step p) (60\<^sup>2) \<noteq> 0"
  by (simp add: fmul_def fl_eq_0_iff)

lemma setrun_p_style1:
  assumes "lower s = ''geoclaw''" "geodata (C s 2) \<noteq> None" "outstyle_lit p = 1" "step p \<noteq> 0"
  shows "\<exists>rd. setrun_p p C s = Inr rd
        \<and> nout (clawdata rd) =
            py_int (fdiv (num_hours p) (step p))
            + \<lceil>fdiv (RAMP_UP_TIME p) (fmul (step p) (60\<^sup>2))\<rceil>
        \<and> tfinal (clawdata rd) = fmul (num_hours p) (60\<^sup>2)
        \<and> t0 (clawdata rd) = - RAMP_UP_TIME p"
proof -
  from assms(2) obtain g where g: "geodata (C s 2) = Some g" by auto
  from setgeo_p_Some[OF g, of p] obtain g' where
    sg: "setgeo_p p (C s 2) = Inr ((C s 2)\<lparr>geodata := Some g'\<rparr>)" by blast
  show ?thesis
    using assms(1,3,4) sg fmul_step_nonzero[OF assms(4)]
    by (simp add: setrun_p_def py_int_np_ceil)
qed

lemma setrun_p_style2:
  assumes "lower s = ''geoclaw''" "geodata (C s 2) \<noteq> None" "outstyle_lit p = 2"
  shows "\<exists>rd. setrun_p p C s = Inr rd
        \<and> nout (clawdata rd) = int (length (tout_lit p))
        \<and> tout (clawdata rd) = tout_lit p"
proof -
  from assms(2) obtain g where g: "geodata (C s 2) = Some g" by auto
  from setgeo_p_Some[OF g, of p] obtain g' where
    sg: "setgeo_p p (C s 2) = Inr ((C s 2)\<lparr>geodata := Some g'\<rparr>)" by blast
  show ?thesis
    using assms(1,3) sg by (simp add: setrun_p_def)
qed

lemma setrun_p_t0:
  "setrun_p p C s = Inr rd \<Longrightarrow> t0 (clawdata rd) = - RAMP_UP_TIME p"
  by (auto simp: setrun_p_def Let_def split: if_splits sum.splits)

lemma setrun_p_style1_read:
  assumes "lower s = ''geoclaw''" "geodata (C s 2) \<noteq> None" "outstyle_lit p = 1" "step p \<noteq> 0"
  shows "read_clawdata nout (setrun_p p C s) =
           Inr (py_int (fdiv (num_hours p) (step p))
                + \<lceil>fdiv (RAMP_UP_TIME p) (fmul (step p) (60\<^sup>2))\<rceil>)"
    and "read_clawdata tfinal (setrun_p p C s) = Inr (fmul (num_hours p) (60\<^sup>2))"
  using setrun_p_style1[of s C p] assms by (auto simp: read_clawdata_def)

lemma setrun_p_style2_read:
  assumes "lower s = ''geoclaw''" "geodata (C s 2) \<noteq> None" "outstyle_lit p = 2"
  shows "read_clawdata nout (setrun_p p C s) = Inr (int (length (tout_lit p)))"
    and "read_clawdata tout (setrun_p p C s) = Inr (tout_lit p)"
  using setrun_p_style2[of s C p] assms by (auto simp: read_clawdata_def)

lemma lower_geoclaw: "lower ''geoclaw'' = ''geoclaw''"
  by (simp add: lower_def lower_char_def)

lemma empty_rundata_geodata: "geodata (empty_rundata s n) \<noteq> None"
  by (simp add: empty_rundata_def)

lemma gauge_loop_map:
  "gauge_loop p js gs =
     gs @ map (\<lambda>i. (i, 455000,
                     fadd (fmul (fdiv (gauge_span p) (float_of_int (N_gauges p + 1)))
                                (float_of_int (i + 1)))
                          (gauge_offset p),
                     0, 10 ^ 10)) js"
  by (induction js arbitrary: gs) (simp_all add: Let_def)

lemma setgeo_p_gauges:
  assumes "geodata rd \<noteq> None"
  shows "gauges_of (setgeo_p p rd) =
     Some (map (\<lambda>i. (i, 455000,
                      fadd (fmul (fdiv (gauge_span p) (float_of_int (N_gauges p + 1)))
                                 (float_of_int (i + 1)))
                           (gauge_offset p),
                      0, 10 ^ 10))
            [0 .. N_gauges p - 1])"
  using assms by (auto simp: setgeo_p_def gauges_of_def gauge_loop_map)


lemma float_of_int_exact: "\<bar>n\<bar> \<le> 2 ^ 53 \<Longrightarrow> float_of_int n = of_int n"
  unfolding float_of_int_def by (rule fl_of_int)

lemma float_of_int_mono: "i \<le> j \<Longrightarrow> float_of_int i \<le> float_of_int j"
  unfolding float_of_int_def by (rule fl_mono) simp

lemma float_of_int_nonneg: "0 \<le> n \<Longrightarrow> 0 \<le> float_of_int n"
  unfolding float_of_int_def by (rule fl_nonneg) simp

lemma gauge_y_mono:
  assumes "0 \<le> wd" and "0 \<le> N + 1" and "i \<le> j"
  shows "fadd (fmul (fdiv wd (float_of_int (N + 1))) (float_of_int (i + 1))) off
       \<le> fadd (fmul (fdiv wd (float_of_int (N + 1))) (float_of_int (j + 1))) off"
proof -
  define d where "d = fdiv wd (float_of_int (N + 1))"
  have "0 \<le> wd / float_of_int (N + 1)"
    using assms(1) float_of_int_nonneg[OF assms(2)] by simp
  then have d: "0 \<le> d" unfolding d_def fdiv_def by (rule fl_nonneg)
  have "float_of_int (i + 1) \<le> float_of_int (j + 1)"
    using assms(3) by (intro float_of_int_mono) simp
  then have "d * float_of_int (i + 1) \<le> d * float_of_int (j + 1)"
    using d by (rule mult_left_mono)
  then have "fmul d (float_of_int (i + 1)) \<le> fmul d (float_of_int (j + 1))"
    unfolding fmul_def by (rule fl_mono)
  then have "fmul d (float_of_int (i + 1)) + off \<le> fmul d (float_of_int (j + 1)) + off"
    by simp
  then show ?thesis unfolding fadd_def d_def[symmetric] by (rule fl_mono)
qed

lemma round_twice_bound:
  fixes n :: real
  assumes "0 \<le> n" and "n \<le> 2 ^ 51"
  shows "n * ((1 + 1 / 2 ^ 53) * (1 + 1 / 2 ^ 53)) \<le> n + 1"
proof -
  have "(1 + 1 / 2 ^ 53) * (1 + 1 / 2 ^ 53) \<le> 1 + 1 / (2::real) ^ 51" by simp
  then have "n * ((1 + 1 / 2 ^ 53) * (1 + 1 / 2 ^ 53)) \<le> n * (1 + 1 / 2 ^ 51)"
    using assms(1) by (rule mult_left_mono)
  also have "\<dots> = n + n / 2 ^ 51" by (simp add: algebra_simps)
  also have "\<dots> \<le> n + 1" using assms(2) by simp
  finally show ?thesis .
qed

lemma gauge_y_bounds:
  assumes "1 \<le> N" and "N \<le> 2 ^ 51" and "y_min < y_max"
    and "fl y_min = y_min" and "fl y_max = y_max" and "0 \<le> i" and "i < N"
  shows "y_min \<le> fadd (fmul (fdiv (y_max - y_min) (float_of_int (N + 1))) (float_of_int (i + 1))) y_min"
    and "fadd (fmul (fdiv (y_max - y_min) (float_of_int (N + 1))) (float_of_int (i + 1))) y_min \<le> y_max"
proof -
  define u :: real where "u = 1 + 1 / 2 ^ 53"
  define wd where "wd = y_max - y_min"
  define q where "q = wd / of_int (N + 1)"
  define d where "d = fl q"
  define k :: real where "k = of_int (i + 1)"
  define m where "m = fl (d * k)"
  have "\<bar>N + 1\<bar> \<le> 2 ^ 53" using assms(1,2) by simp
  then have fN: "float_of_int (N + 1) = of_int (N + 1)" by (rule float_of_int_exact)
  have "\<bar>i + 1\<bar> \<le> 2 ^ 53" using assms(2,6,7) by simp
  then have fi: "float_of_int (i + 1) = k" unfolding k_def by (rule float_of_int_exact)
  have y: "fadd (fmul (fdiv (y_max - y_min) (float_of_int (N + 1))) (float_of_int (i + 1))) y_min
           = fl (m + y_min)"
    by (simp add: fadd_def fmul_def fdiv_def fN fi m_def d_def q_def wd_def)
  have wd: "0 < wd" using assms(3) by (simp add: wd_def)
  have Np: "(0::real) < of_int (N + 1)" using assms(1) by simp
  have q: "0 < q" unfolding q_def using wd Np by simp
  have d: "0 < d" unfolding d_def using q by (rule fl_pos)
  have k: "0 < k" using assms(6) by (simp add: k_def)
  have dk: "0 < d * k" using d k by simp
  have m0: "0 \<le> m" unfolding m_def using dk by (intro fl_nonneg) simp
  have u0: "0 \<le> u" by (simp add: u_def)
  have "y_min \<le> m + y_min" using m0 by simp
  then have "fl y_min \<le> fl (m + y_min)" by (rule fl_mono)
  then show "y_min \<le> fadd (fmul (fdiv (y_max - y_min) (float_of_int (N + 1))) (float_of_int (i + 1))) y_min"
    using assms(4) y by simp
  have du: "d \<le> q * u" unfolding d_def u_def using q by (rule fl_rel_upper)
  have mu: "m \<le> d * k * u" unfolding m_def u_def using dk by (rule fl_rel_upper)
  have kN: "k \<le> of_int N" using assms(7) by (simp add: k_def)
  have ku: "0 \<le> k * u" using k u0 by simp
  have "d * (k * u) \<le> q * u * (k * u)" using du ku by (rule mult_right_mono)
  also have "\<dots> = q * (k * (u * u))" by simp
  also have "\<dots> \<le> q * (of_int N * (u * u))"
  proof -
    have "0 \<le> u * u" using u0 by simp
    with kN have "k * (u * u) \<le> of_int N * (u * u)" by (rule mult_right_mono)
    then show ?thesis using q by simp
  qed
  also have "\<dots> \<le> q * (of_int N + 1)"
  proof -
    have "(0::real) \<le> of_int N" "(of_int N :: real) \<le> 2 ^ 51"
      using assms(1) apply simp
      using assms(2) of_int_le_iff[of N "2 ^ 51", where ?'a = real] by simp
    then have "of_int N * (u * u) \<le> (of_int N :: real) + 1"
      unfolding u_def by (rule round_twice_bound)
    then show ?thesis using q by simp
  qed
  also have "\<dots> = wd" using Np by (simp add: q_def)
  finally have "d * (k * u) \<le> wd" .
  with mu have "m \<le> wd" by (simp add: mult.assoc)
  then have "m + y_min \<le> y_max" by (simp add: wd_def)
  then have "fl (m + y_min) \<le> fl y_max" by (rule fl_mono)
  then show "fadd (fmul (fdiv (y_max - y_min) (float_of_int (N + 1))) (float_of_int (i + 1))) y_min \<le> y_max"
    using assms(5) y by simp
qed

lemma gauge_y_source:
  assumes "0 \<le> i" and "i < 21"
  shows "fadd (fmul (fdiv 550000 (float_of_int 22)) (float_of_int (i + 1))) (- 275000)
         = 25000 * of_int (i + 1) - 275000"
proof -
  have a: "float_of_int 22 = 22" using float_of_int_exact[of 22] by simp
  have b: "fl 25000 = 25000" using fl_of_int[of 25000] by simp
  have "\<bar>i + 1\<bar> \<le> 2 ^ 53" using assms by simp
  then have c: "float_of_int (i + 1) = of_int (i + 1)" by (rule float_of_int_exact)
  have "\<bar>25000 * (i + 1)\<bar> \<le> 2 ^ 53" using assms by simp
  from fl_of_int[OF this] have d: "fl (25000 * of_int (i + 1)) = 25000 * of_int (i + 1)"
    by simp
  have "\<bar>25000 * (i + 1) - 275000\<bar> \<le> 2 ^ 53" using assms by simp
  from fl_of_int[OF this]
  have e: "fl (25000 * of_int (i + 1) - 275000) = 25000 * of_int (i + 1) - 275000"
    by simp
  have s1: "fdiv 550000 (float_of_int 22) = 25000" by (simp add: fdiv_def a b)
  have s2: "fmul 25000 (float_of_int (i + 1)) = 25000 * of_int (i + 1)"
    unfolding fmul_def c by (rule d)
  have s3: "fadd (25000 * of_int (i + 1)) (- 275000) = 25000 * of_int (i + 1) - 275000"
    unfolding fadd_def using e by simp
  show ?thesis by (simp only: s1 s2 s3)
qed

lemma setgeo_p_gauges_nth:
  assumes "geodata rd \<noteq> None"
  shows "\<exists>gs. gauges_of (setgeo_p p rd) = Some gs
     \<and> length gs = nat (N_gauges p)
     \<and> (\<forall>i < nat (N_gauges p).
           gs ! i = (int i, 455000,
                     fadd (fmul (fdiv (gauge_span p) (float_of_int (N_gauges p + 1)))
                                (float_of_int (int i + 1)))
                          (gauge_offset p),
                     0, 10 ^ 10))"
proof -
  define f where "f = (\<lambda>i::int. (i, 455000::real,
                      fadd (fmul (fdiv (gauge_span p) (float_of_int (N_gauges p + 1)))
                                 (float_of_int (i + 1)))
                           (gauge_offset p),
                      0::real, (10::real) ^ 10))"
  define gs where "gs = map f [0 .. N_gauges p - 1]"
  have run: "gauges_of (setgeo_p p rd) = Some gs"
    using setgeo_p_gauges[OF assms, of p] by (simp add: gs_def f_def)
  have len: "length gs = nat (N_gauges p)" by (simp add: gs_def)
  have nth: "gs ! i = f (int i)" if "i < nat (N_gauges p)" for i
  proof -
    have "[0 .. N_gauges p - 1] ! i = 0 + int i" using that by (intro nth_upto) simp
    then show ?thesis using that by (simp add: gs_def)
  qed
  show ?thesis using run len nth unfolding f_def by blast
qed

lemma gauge_y_at_setgeo_p:
  assumes "geodata rd \<noteq> None" and "i < nat (N_gauges p)"
  shows "gauge_y_at (setgeo_p p rd) i =
     Some (fadd (fmul (fdiv (gauge_span p) (float_of_int (N_gauges p + 1)))
                      (float_of_int (int i + 1)))
                (gauge_offset p))"
proof -
  from setgeo_p_gauges_nth[OF assms(1), of p] obtain gs where
    gs: "gauges_of (setgeo_p p rd) = Some gs" "length gs = nat (N_gauges p)"
      "\<forall>i < nat (N_gauges p).
           gs ! i = (int i, 455000,
                     fadd (fmul (fdiv (gauge_span p) (float_of_int (N_gauges p + 1)))
                                (float_of_int (int i + 1)))
                          (gauge_offset p),
                     0, 10 ^ 10)"
    by blast
  show ?thesis using gs assms(2) by (simp add: gauge_y_at_def gauge_y_def)
qed

subsection \<open>The claims\<close>

text \<open>
  Claim C1, amended. In output style 1, for every simulated duration \<open>num_hours \<ge> 0\<close> (in
  particular every positive one), every positive cadence \<open>step\<close> and every ramp-up
  duration, \<open>setrun\<close> returns a run object whose frame count is
  \<open>floor q + ceiling r\<close>, where \<open>q\<close> is the double nearest to
  \<open>num_hours / step\<close> and \<open>r\<close> the double nearest to \<open>RAMP_UP_TIME / d\<close>,
  \<open>d\<close> being the double nearest to \<open>step * 3600\<close>; its final time is the double
  nearest to \<open>num_hours * 3600\<close>. When the two quotients and the two products are
  doubles themselves, the frame count is
  \<open>floor (num_hours / step) + ceiling (RAMP_UP_TIME / (step * 3600))\<close> and the final
  time is \<open>num_hours * 3600\<close>. The run is made with an accepted package name and a
  library object that carries \<^verbatim>\<open>geodata\<close>.
\<close>

theorem style1_frame_count:
  assumes "0 \<le> num_hours p"
    and "0 < step p"
    and "outstyle_lit p = 1"
    and "lower claw_pkg = ''geoclaw''"
    and "geodata (ClawRunData claw_pkg 2) \<noteq> None"
  shows "read_clawdata nout (setrun_p p ClawRunData claw_pkg) =
           Inr (\<lfloor>fl (num_hours p / step p)\<rfloor>
                + \<lceil>fl (RAMP_UP_TIME p / fl (step p * 3600))\<rceil>)
       \<and> read_clawdata tfinal (setrun_p p ClawRunData claw_pkg) = Inr (fl (num_hours p * 3600))
       \<and> (fl (num_hours p / step p) = num_hours p / step p
            \<and> fl (step p * 3600) = step p * 3600
            \<and> fl (RAMP_UP_TIME p / (step p * 3600)) = RAMP_UP_TIME p / (step p * 3600)
            \<and> fl (num_hours p * 3600) = num_hours p * 3600
          \<longrightarrow> read_clawdata nout (setrun_p p ClawRunData claw_pkg) =
                 Inr (\<lfloor>num_hours p / step p\<rfloor> + \<lceil>RAMP_UP_TIME p / (step p * 3600)\<rceil>)
              \<and> read_clawdata tfinal (setrun_p p ClawRunData claw_pkg) = Inr (num_hours p * 3600))"
proof -
  have s: "step p \<noteq> 0" using assms(2) by simp
  have "0 \<le> num_hours p / step p" using assms(1,2) by simp
  then have "0 \<le> fl (num_hours p / step p)" by (rule fl_nonneg)
  then have i: "py_int (fdiv (num_hours p) (step p)) = \<lfloor>fl (num_hours p / step p)\<rfloor>"
    unfolding fdiv_def by (rule py_int_nonneg)
  have n: "read_clawdata nout (setrun_p p ClawRunData claw_pkg) =
           Inr (\<lfloor>fl (num_hours p / step p)\<rfloor>
                + \<lceil>fl (RAMP_UP_TIME p / fl (step p * 3600))\<rceil>)"
    using setrun_p_style1_read(1)[of claw_pkg ClawRunData p] assms(3,4,5) s i
    by (simp add: fdiv_def fmul_def)
  have t: "read_clawdata tfinal (setrun_p p ClawRunData claw_pkg) = Inr (fl (num_hours p * 3600))"
    using setrun_p_style1_read(2)[of claw_pkg ClawRunData p] assms(3,4,5) s
    by (simp add: fmul_def)
  show ?thesis using n t by simp
qed

text \<open>
  The hypotheses of C1 (amended) hold for 3.25 hours at a cadence of half an hour with a
  ramp-up of 900 seconds, where the quotients and products are doubles: 6 frames for the
  hours, 1 for the ramp-up, and the final time 11700.
\<close>

theorem style1_frame_count_witness:
  "(0::real) \<le> 3.25 \<and> (0::real) < 0.5
   \<and> fl (3.25 / 0.5) = 3.25 / 0.5 \<and> fl (0.5 * 3600) = 0.5 * 3600
   \<and> fl (900 / (0.5 * 3600)) = 900 / (0.5 * 3600) \<and> fl (3.25 * 3600) = 3.25 * 3600
   \<and> read_clawdata nout
        (setrun_p (source_params\<lparr> num_hours := 3.25, step := 0.5, RAMP_UP_TIME := 900 \<rparr>)
           empty_rundata ''geoclaw'') = Inr (6 + 1)
   \<and> read_clawdata tfinal
        (setrun_p (source_params\<lparr> num_hours := 3.25, step := 0.5, RAMP_UP_TIME := 900 \<rparr>)
           empty_rundata ''geoclaw'') = Inr 11700"
proof -
  have e: "fl (13 / 2) = 13 / 2" "fl 1800 = 1800" "fl (1 / 2) = 1 / 2" "fl 11700 = 11700"
    by (simp_all add: fl_def ilog2.simps rne_def Let_def)
  have c: "\<lceil>(1::real) / 2\<rceil> = 1" by (simp add: ceiling_eq_iff)
  from style1_frame_count
     [of "source_params\<lparr> num_hours := 3.25, step := 0.5, RAMP_UP_TIME := 900 \<rparr>"
         "''geoclaw''" empty_rundata]
  show ?thesis
    by (simp add: source_params_def lower_geoclaw empty_rundata_geodata e c)
qed

text \<open>
  C1 as it is stated takes the floor of the quotient of the two numbers. For 1 hour at the
  cadence \<^verbatim>\<open>0.1\<close>, a double slightly above one tenth, the quotient is below 10 and its
  floor is 9, while the division of the doubles rounds to 10 and the run returns 10
  frames. For 33 hours at the cadence \<^verbatim>\<open>0.55\<close> the run returns 59 frames, where the
  formula at the decimal values gives 60.
\<close>

theorem style1_frame_count_counterexample:
  "(0::real) < fl 0.1
   \<and> read_clawdata nout
        (setrun_p (source_params\<lparr> num_hours := 1, step := fl 0.1, RAMP_UP_TIME := 0 \<rparr>)
           empty_rundata ''geoclaw'') = Inr 10
   \<and> \<lfloor>(1::real) / fl 0.1\<rfloor> + \<lceil>(0::real) / (fl 0.1 * 3600)\<rceil> = 9
   \<and> read_clawdata nout
        (setrun_p (source_params\<lparr> num_hours := 33, step := fl 0.55, RAMP_UP_TIME := 0 \<rparr>)
           empty_rundata ''geoclaw'') = Inr 59
   \<and> \<lfloor>(33::real) / 0.55\<rfloor> + \<lceil>(0::real) / (0.55 * 3600)\<rceil> = 60"
proof -
  have a: "fl (11 / 20) = 2476979795053773 / 4503599627370496"
    by (simp add: fl_def ilog2.simps rne_def Let_def)
  have b: "fl (1 / 10) = 3602879701896397 / 36028797018963968"
    by (simp add: fl_def ilog2.simps rne_def Let_def)
  have qa: "fl (49539595901075456 / 825659931684591) = 8444249301319679 / 140737488355328"
    by (simp add: fl_def ilog2.simps rne_def Let_def)
  have qb: "fl (36028797018963968 / 3602879701896397) = 10"
    by (simp add: fl_def ilog2.simps rne_def Let_def)
  have na: "read_clawdata nout
     (setrun_p (source_params\<lparr> num_hours := 33, step := fl 0.55, RAMP_UP_TIME := 0 \<rparr>)
        empty_rundata ''geoclaw'') = Inr 59"
    using setrun_p_style1_read(1)
       [of "''geoclaw''" empty_rundata
           "source_params\<lparr> num_hours := 33, step := fl 0.55, RAMP_UP_TIME := 0 \<rparr>"]
      lower_geoclaw empty_rundata_geodata
    by (simp add: a qa source_params_def fdiv_def fl_0 py_int_def)
  have nb: "read_clawdata nout
     (setrun_p (source_params\<lparr> num_hours := 1, step := fl 0.1, RAMP_UP_TIME := 0 \<rparr>)
        empty_rundata ''geoclaw'') = Inr 10"
    using setrun_p_style1_read(1)
       [of "''geoclaw''" empty_rundata
           "source_params\<lparr> num_hours := 1, step := fl 0.1, RAMP_UP_TIME := 0 \<rparr>"]
      lower_geoclaw empty_rundata_geodata
    by (simp add: b qb source_params_def fdiv_def fl_0 py_int_def)
  have ca: "\<lfloor>(33::real) / 0.55\<rfloor> + \<lceil>(0::real) / (0.55 * 3600)\<rceil> = 60" by simp
  have cb: "\<lfloor>(1::real) / fl 0.1\<rfloor> + \<lceil>(0::real) / (fl 0.1 * 3600)\<rceil> = 9"
    by (simp add: b)
  have p: "(0::real) < fl 0.1" by (simp add: b)
  show ?thesis using na nb ca cb p by simp
qed

text \<open>
  Claim C2, amended. With \<open>num_hours = 40\<close>, \<open>step = 0.25\<close> and
  \<open>RAMP_UP_TIME = 43200\<close> the style 1 computation gives the frame count
  \<open>160 + 48 = 208\<close> and the final time \<open>144000\<close>: the ramp-up term is
  \<open>ceiling (43200 / 900) = 48\<close>.
\<close>

theorem scenario_frame_count:
  assumes "num_hours p = 40"
    and "step p = 0.25"
    and "RAMP_UP_TIME p = 43200"
    and "outstyle_lit p = 1"
    and "lower claw_pkg = ''geoclaw''"
    and "geodata (ClawRunData claw_pkg 2) \<noteq> None"
  shows "read_clawdata nout (setrun_p p ClawRunData claw_pkg) = Inr (160 + 48)
       \<and> read_clawdata tfinal (setrun_p p ClawRunData claw_pkg) = Inr 144000"
proof -
  have s: "step p \<noteq> 0" using assms(2) by simp
  show ?thesis
    using setrun_p_style1_read[of claw_pkg ClawRunData p] assms s fl_int_numeral_eval
    by (simp add: py_int_def fdiv_def fmul_def)
qed

text \<open>
  The values of C2 are the literals of the source, so this is what \<open>setrun\<close> itself
  returns.
\<close>

theorem scenario_frame_count_witness:
  "num_hours source_params = 40 \<and> step source_params = 0.25
   \<and> RAMP_UP_TIME source_params = 43200 \<and> outstyle_lit source_params = 1
   \<and> read_clawdata nout (setrun empty_rundata ''geoclaw'') = Inr 208
   \<and> read_clawdata tfinal (setrun empty_rundata ''geoclaw'') = Inr 144000"
proof -
  have h: "num_hours source_params = 40" "step source_params = 0.25"
      "RAMP_UP_TIME source_params = 43200" "outstyle_lit source_params = 1"
    by (simp_all add: source_params_def)
  from scenario_frame_count[of source_params "''geoclaw''" empty_rundata] h
  show ?thesis by (simp add: setrun_def lower_geoclaw empty_rundata_geodata)
qed

text \<open>
  C2 as it is stated asks for 161 frames; the run with these three values does not give
  161.
\<close>

theorem scenario_frame_count_counterexample:
  "read_clawdata nout
     (setrun_p (source_params\<lparr> num_hours := 40, step := 0.25, RAMP_UP_TIME := 43200,
                               outstyle_lit := 1 \<rparr>) empty_rundata ''geoclaw'') \<noteq> Inr 161"
  using setrun_p_style1_read(1)
     [of "''geoclaw''" empty_rundata
         "source_params\<lparr> num_hours := 40, step := 0.25, RAMP_UP_TIME := 43200, outstyle_lit := 1 \<rparr>"]
    fl_int_numeral_eval
  by (simp add: lower_geoclaw empty_rundata_geodata py_int_def fdiv_def fmul_def)

text \<open>
  Claim C3, amended. For every gauge count \<open>1 \<le> N \<le> 2^51\<close> and all doubles
  \<open>y_min < y_max\<close>, \<open>setgeo\<close> returns exactly \<open>N\<close> gauge lines; line \<open>i\<close>
  (for \<open>i = 0 .. N-1\<close>) has the number \<open>i\<close>, \<open>x = 455000\<close>, the window from
  \<open>0\<close> to \<open>10^10\<close>, and the \<open>y\<close> that the three float operations of
  \<^verbatim>\<open>span / (N+1) * (i+1) + y_min\<close> give, each rounded to the nearest double. Every
  \<open>y\<close> lies in the closed interval from \<open>y_min\<close> to \<open>y_max\<close>, and the \<open>y\<close>
  do not decrease with \<open>i\<close>. For \<open>N = 21\<close>, \<open>y_min = -275000\<close> and
  \<open>y_max = 275000\<close> (the values of the source) no operation rounds: every \<open>y\<close> is
  \<open>(y_max - y_min) / 22 * (i+1) + y_min\<close>, lies strictly between \<open>y_min\<close> and
  \<open>y_max\<close>, the \<open>y\<close> are strictly increasing, consecutive ones differ by
  \<open>(y_max - y_min) / 22\<close>, and gauge 0 is at \<open>y = -250000\<close>.
\<close>

theorem gauge_placement:
  assumes "1 \<le> N_gauges p"
    and "N_gauges p \<le> 2 ^ 51"
    and "gauge_span p = y_max - y_min"
    and "gauge_offset p = y_min"
    and "y_min < y_max"
    and "fl y_min = y_min"
    and "fl y_max = y_max"
    and "geodata rundata \<noteq> None"
  shows "\<exists>gs. gauges_of (setgeo_p p rundata) = Some gs
    \<and> length gs = nat (N_gauges p)
    \<and> (\<forall>i < nat (N_gauges p).
          gs ! i = (int i, 455000,
                    fl (fl (fl ((y_max - y_min) / fl (of_int (N_gauges p + 1)))
                            * fl (of_int (int i + 1))) + y_min),
                    0, 10 ^ 10))
    \<and> (\<forall>i < nat (N_gauges p). y_min \<le> gauge_y (gs ! i) \<and> gauge_y (gs ! i) \<le> y_max)
    \<and> (\<forall>i j. i < j \<and> j < nat (N_gauges p) \<longrightarrow> gauge_y (gs ! i) \<le> gauge_y (gs ! j))
    \<and> (\<forall>i < nat (N_gauges p). gauge_t1 (gs ! i) = 0 \<and> gauge_t2 (gs ! i) = 10 ^ 10)
    \<and> (N_gauges p = 21 \<and> y_min = - 275000 \<and> y_max = 275000 \<longrightarrow>
          (\<forall>i < 21. gauge_y (gs ! i) = (y_max - y_min) / 22 * (real i + 1) + y_min
                    \<and> y_min < gauge_y (gs ! i) \<and> gauge_y (gs ! i) < y_max)
        \<and> (\<forall>i j. i < j \<and> j < 21 \<longrightarrow> gauge_y (gs ! i) < gauge_y (gs ! j))
        \<and> (\<forall>i. Suc i < 21 \<longrightarrow>
              gauge_y (gs ! Suc i) - gauge_y (gs ! i) = (y_max - y_min) / 22)
        \<and> gauge_y (gs ! 0) = - 250000)"
proof -
  define N where "N = N_gauges p"
  define y where "y = (\<lambda>i::int.
     fadd (fmul (fdiv (y_max - y_min) (float_of_int (N + 1))) (float_of_int (i + 1))) y_min)"
  from setgeo_p_gauges_nth[OF assms(8), of p] obtain gs where
    run: "gauges_of (setgeo_p p rundata) = Some gs"
    and len: "length gs = nat N"
    and nth: "\<forall>i < nat N. gs ! i = (int i, 455000, y (int i), 0, 10 ^ 10)"
    unfolding N_def y_def assms(3,4) by blast
  have N: "1 \<le> N" "N \<le> 2 ^ 51" using assms(1,2) by (simp_all add: N_def)
  have gy: "gauge_y (gs ! i) = y (int i)" if "i < nat N" for i
    using nth that by (simp add: gauge_y_def)
  have lines: "\<forall>i < nat N.
          gs ! i = (int i, 455000,
                    fl (fl (fl ((y_max - y_min) / fl (of_int (N + 1)))
                            * fl (of_int (int i + 1))) + y_min),
                    0, 10 ^ 10)"
    using nth by (simp only: y_def fadd_def fmul_def fdiv_def float_of_int_def)
  have inside: "\<forall>i < nat N. y_min \<le> gauge_y (gs ! i) \<and> gauge_y (gs ! i) \<le> y_max"
  proof (intro allI impI)
    fix i assume i: "i < nat N"
    then have "0 \<le> int i" "int i < N" by simp_all
    from gauge_y_bounds[OF N assms(5,6,7) this] show
      "y_min \<le> gauge_y (gs ! i) \<and> gauge_y (gs ! i) \<le> y_max"
      using gy[OF i] by (simp add: y_def)
  qed
  have mono: "\<forall>i j. i < j \<and> j < nat N \<longrightarrow> gauge_y (gs ! i) \<le> gauge_y (gs ! j)"
  proof (intro allI impI)
    fix i j assume ij: "i < j \<and> j < nat N"
    then have i: "i < nat N" and j: "j < nat N" and le: "int i \<le> int j" by simp_all
    have "0 \<le> y_max - y_min" "0 \<le> N + 1" using assms(5) N(1) by simp_all
    from gauge_y_mono[OF this le] show "gauge_y (gs ! i) \<le> gauge_y (gs ! j)"
      using gy[OF i] gy[OF j] by (simp add: y_def)
  qed
  have window: "\<forall>i < nat N. gauge_t1 (gs ! i) = 0 \<and> gauge_t2 (gs ! i) = 10 ^ 10"
    using nth by (simp add: gauge_t1_def gauge_t2_def)
  have src: "(\<forall>i < 21. gauge_y (gs ! i) = (y_max - y_min) / 22 * (real i + 1) + y_min
                    \<and> y_min < gauge_y (gs ! i) \<and> gauge_y (gs ! i) < y_max)
        \<and> (\<forall>i j. i < j \<and> j < 21 \<longrightarrow> gauge_y (gs ! i) < gauge_y (gs ! j))
        \<and> (\<forall>i. Suc i < 21 \<longrightarrow>
              gauge_y (gs ! Suc i) - gauge_y (gs ! i) = (y_max - y_min) / 22)
        \<and> gauge_y (gs ! 0) = - 250000"
    if s: "N = 21 \<and> y_min = - 275000 \<and> y_max = 275000"
  proof -
    have v: "gauge_y (gs ! i) = 25000 * (real i + 1) - 275000" if "i < 21" for i
    proof -
      have "0 \<le> int i" "int i < 21" using that by simp_all
      from gauge_y_source[OF this] gy[of i] that s show ?thesis
        by (simp add: y_def)
    qed
    have a: "\<forall>i < 21. gauge_y (gs ! i) = (y_max - y_min) / 22 * (real i + 1) + y_min
                    \<and> y_min < gauge_y (gs ! i) \<and> gauge_y (gs ! i) < y_max"
      using v s by simp
    have b: "\<forall>i j. i < j \<and> j < 21 \<longrightarrow> gauge_y (gs ! i) < gauge_y (gs ! j)"
    proof (intro allI impI)
      fix i j :: nat assume ij: "i < j \<and> j < 21"
      then have "i < 21" "j < 21" by simp_all
      from v[OF this(1)] v[OF this(2)] ij show "gauge_y (gs ! i) < gauge_y (gs ! j)"
        by simp
    qed
    have c: "\<forall>i. Suc i < 21 \<longrightarrow>
              gauge_y (gs ! Suc i) - gauge_y (gs ! i) = (y_max - y_min) / 22"
    proof (intro allI impI)
      fix i assume i: "Suc i < 21"
      then have "i < 21" by simp
      from v[OF this] v[OF i] s
      show "gauge_y (gs ! Suc i) - gauge_y (gs ! i) = (y_max - y_min) / 22" by simp
    qed
    have d: "gauge_y (gs ! 0) = - 250000" using v[of 0] by simp
    show ?thesis using a b c d by blast
  qed
  show ?thesis
    unfolding N_def[symmetric]
    using run len lines inside mono window src by blast
qed

text \<open>
  The hypotheses of C3 (amended) hold for the literals of the source: \<open>setgeo\<close> places
  21 gauges, the first at \<open>-250000\<close>, the second at \<open>-225000\<close> and the last at
  \<open>250000\<close>, each with the window from \<open>0\<close> to \<open>10^10\<close>.
\<close>

theorem gauge_placement_witness:
  "1 \<le> N_gauges source_params
   \<and> N_gauges source_params \<le> 2 ^ 51
   \<and> gauge_span source_params = 275000 - (- 275000)
   \<and> gauge_offset source_params = - 275000
   \<and> (- 275000 :: real) < 275000
   \<and> fl (- 275000) = - 275000 \<and> fl 275000 = 275000
   \<and> geodata (empty_rundata ''geoclaw'' 2) \<noteq> None
   \<and> (\<exists>gs. gauges_of (setgeo (empty_rundata ''geoclaw'' 2)) = Some gs
         \<and> length gs = 21
         \<and> gauge_y (gs ! 0) = - 250000
         \<and> gauge_y (gs ! 1) = - 225000
         \<and> gauge_y (gs ! 20) = 250000
         \<and> gauge_t1 (gs ! 0) = 0 \<and> gauge_t2 (gs ! 0) = 10 ^ 10)"
proof -
  have f: "fl (- 275000) = - 275000" "fl 275000 = 275000"
    using fl_of_int[of "- 275000"] fl_of_int[of 275000] by simp_all
  have h: "1 \<le> N_gauges source_params"
      "N_gauges source_params \<le> 2 ^ 51"
      "gauge_span source_params = 275000 - (- 275000)"
      "gauge_offset source_params = - 275000"
      "(- 275000 :: real) < 275000"
    by (simp_all add: source_params_def)
  have g: "geodata (empty_rundata ''geoclaw'' 2) \<noteq> None" by (rule empty_rundata_geodata)
  have n: "N_gauges source_params = 21" by (simp add: source_params_def)
  from gauge_placement[OF h f g] obtain gs where
    gs: "gauges_of (setgeo_p source_params (empty_rundata ''geoclaw'' 2)) = Some gs"
      "length gs = nat (N_gauges source_params)"
      "\<forall>i < nat (N_gauges source_params). gauge_t1 (gs ! i) = 0 \<and> gauge_t2 (gs ! i) = 10 ^ 10"
      "\<forall>i < 21. gauge_y (gs ! i) = (275000 - (- 275000)) / 22 * (real i + 1) + (- 275000)"
    by (elim exE conjE) (simp add: n)
  have "gauge_y (gs ! 0) = - 250000" "gauge_y (gs ! 1) = - 225000"
      "gauge_y (gs ! 20) = 250000"
    using gs(4)[rule_format, of 0] gs(4)[rule_format, of 1] gs(4)[rule_format, of 20]
    by simp_all
  moreover have "gauge_t1 (gs ! 0) = 0 \<and> gauge_t2 (gs ! 0) = 10 ^ 10"
    using gs(3)[rule_format, of 0] n by simp
  ultimately show ?thesis using h f g gs(1,2) n by (simp add: setgeo_def)
qed

text \<open>
  C3 as it is stated gives the exact values for every \<open>N\<close>. With 6 gauges and the span
  and offset of the source, the stored \<open>y\<close> of gauge 0 is not
  \<open>550000 / 7 * 1 - 275000\<close>, the step from gauge 0 to gauge 1 differs from the step
  from gauge 2 to gauge 3, and it is not \<open>550000 / 7\<close>. With one gauge, the span 2 and
  the offset \<open>10^16\<close>, gauge 0 is stored at \<open>y_min\<close> itself, not strictly inside.
\<close>

theorem gauge_placement_counterexample:
  "gauge_y_at (setgeo_p (source_params\<lparr> N_gauges := 6 \<rparr>) (empty_rundata ''geoclaw'' 2)) 0
     = Some (- 3374617161142857 / 17179869184)
   \<and> gauge_y_at (setgeo_p (source_params\<lparr> N_gauges := 6 \<rparr>) (empty_rundata ''geoclaw'' 2)) 1
     = Some (- 4049540593371429 / 34359738368)
   \<and> gauge_y_at (setgeo_p (source_params\<lparr> N_gauges := 6 \<rparr>) (empty_rundata ''geoclaw'' 2)) 2
     = Some (- 168730858057143 / 4294967296)
   \<and> gauge_y_at (setgeo_p (source_params\<lparr> N_gauges := 6 \<rparr>) (empty_rundata ''geoclaw'' 2)) 3
     = Some (674923432228571 / 17179869184)
   \<and> (- 3374617161142857 / 17179869184 :: real) \<noteq> (275000 - (- 275000)) / (6 + 1) * (0 + 1) + (- 275000)
   \<and> (- 4049540593371429 / 34359738368 :: real) - (- 3374617161142857 / 17179869184)
       \<noteq> 674923432228571 / 17179869184 - (- 168730858057143 / 4294967296)
   \<and> (- 4049540593371429 / 34359738368 :: real) - (- 3374617161142857 / 17179869184)
       \<noteq> (275000 - (- 275000)) / (6 + 1)
   \<and> gauge_y_at (setgeo_p (source_params\<lparr> N_gauges := 1, gauge_span := 2, gauge_offset := 10 ^ 16 \<rparr>)
                   (empty_rundata ''geoclaw'' 2)) 0
     = Some (10 ^ 16)"
proof -
  let ?p = "source_params\<lparr> N_gauges := 6 \<rparr>"
  let ?q = "source_params\<lparr> N_gauges := 1, gauge_span := 2, gauge_offset := 10 ^ 16 \<rparr>"
  have g: "geodata (empty_rundata ''geoclaw'' 2) \<noteq> None" by (rule empty_rundata_geodata)
  have d: "fdiv 550000 (float_of_int 7) = 5399387457828571 / 68719476736"
    by (simp add: fdiv_def float_of_int_def fl_def ilog2.simps rne_def Let_def)
  have m: "fmul (5399387457828571 / 68719476736) (float_of_int 1) = 5399387457828571 / 68719476736"
      "fmul (5399387457828571 / 68719476736) (float_of_int 2) = 5399387457828571 / 34359738368"
      "fmul (5399387457828571 / 68719476736) (float_of_int 3) = 1012385148342857 / 4294967296"
      "fmul (5399387457828571 / 68719476736) (float_of_int 4) = 5399387457828571 / 17179869184"
    by (simp_all add: fmul_def float_of_int_def fl_def ilog2.simps rne_def Let_def)
  have a: "fadd (5399387457828571 / 68719476736) (- 275000) = - 3374617161142857 / 17179869184"
      "fadd (5399387457828571 / 34359738368) (- 275000) = - 4049540593371429 / 34359738368"
      "fadd (1012385148342857 / 4294967296) (- 275000) = - 168730858057143 / 4294967296"
      "fadd (5399387457828571 / 17179869184) (- 275000) = 674923432228571 / 17179869184"
    by (simp_all add: fadd_def fl_def ilog2.simps rne_def Let_def)
  have y0: "gauge_y_at (setgeo_p ?p (empty_rundata ''geoclaw'' 2)) 0
              = Some (- 3374617161142857 / 17179869184)"
    using gauge_y_at_setgeo_p[OF g, of 0 ?p] by (simp add: source_params_def d m a)
  have y1: "gauge_y_at (setgeo_p ?p (empty_rundata ''geoclaw'' 2)) 1
              = Some (- 4049540593371429 / 34359738368)"
    using gauge_y_at_setgeo_p[OF g, of 1 ?p] by (simp add: source_params_def d m a)
  have y2: "gauge_y_at (setgeo_p ?p (empty_rundata ''geoclaw'' 2)) 2
              = Some (- 168730858057143 / 4294967296)"
    using gauge_y_at_setgeo_p[OF g, of 2 ?p] by (simp add: source_params_def d m a)
  have y3: "gauge_y_at (setgeo_p ?p (empty_rundata ''geoclaw'' 2)) 3
              = Some (674923432228571 / 17179869184)"
    using gauge_y_at_setgeo_p[OF g, of 3 ?p] by (simp add: source_params_def d m a)
  have e: "fadd (fmul (fdiv 2 (float_of_int 2)) (float_of_int 1)) (10 ^ 16) = 10 ^ 16"
    by (simp add: fadd_def fmul_def fdiv_def float_of_int_def fl_def ilog2.simps rne_def Let_def)
  have z: "gauge_y_at (setgeo_p ?q (empty_rundata ''geoclaw'' 2)) 0 = Some (10 ^ 16)"
    using gauge_y_at_setgeo_p[OF g, of 0 ?q] e by (simp add: source_params_def)
  have n: "(- 3374617161142857 / 17179869184 :: real) \<noteq> (275000 - (- 275000)) / (6 + 1) * (0 + 1) + (- 275000)"
    "(- 4049540593371429 / 34359738368 :: real) - (- 3374617161142857 / 17179869184)
       \<noteq> 674923432228571 / 17179869184 - (- 168730858057143 / 4294967296)"
    "(- 4049540593371429 / 34359738368 :: real) - (- 3374617161142857 / 17179869184)
       \<noteq> (275000 - (- 275000)) / (6 + 1)"
    by simp_all
  show ?thesis using y0 y1 y2 y3 z n by blast
qed

text \<open>
  Claim C4. The start time \<open>t0\<close> set by \<open>setrun\<close> and the \<open>ramp_up_t\<close>
  set by \<open>set_storm\<close> are both read from the one constant \<open>RAMP_UP_TIME\<close>, and
  for every value of that constant \<open>t0 = - ramp_up_t\<close>.
\<close>

theorem start_time_ramp_up:
  assumes "setrun_p p ClawRunData claw_pkg = Inr rundata"
  shows "t0 (clawdata rundata) = - RAMP_UP_TIME p
       \<and> ramp_up_t (set_storm_p p StormData) = RAMP_UP_TIME p
       \<and> t0 (clawdata rundata) = - ramp_up_t (set_storm_p p StormData)"
  using setrun_p_t0[OF assms] by (simp add: set_storm_p_def)

text \<open>
  For the source as it is, \<open>setrun\<close> returns a run object, with \<open>t0 = -43200\<close>
  against \<open>ramp_up_t = 43200\<close>.
\<close>

theorem start_time_ramp_up_witness:
  "read_clawdata t0 (setrun empty_rundata ''geoclaw'') = Inr (- 43200)
   \<and> ramp_up_t (set_storm empty_storm) = 43200"
proof -
  have "step source_params \<noteq> 0" "outstyle_lit source_params = 1"
    by (simp_all add: source_params_def)
  with setrun_p_style1[of "''geoclaw''" empty_rundata source_params]
  obtain rd where rd: "setrun_p source_params empty_rundata ''geoclaw'' = Inr rd"
    using lower_geoclaw empty_rundata_geodata by blast
  from start_time_ramp_up[OF rd, of empty_storm] rd show ?thesis
    by (simp add: read_clawdata_def setrun_def set_storm_def source_params_def)
qed

text \<open>
  Claim C5, amended. In output style 2 the frame count is the length of the given list of
  output times, for every list; the list is stored as it is given and its order is not
  examined.
\<close>

theorem style2_frame_count:
  assumes "outstyle_lit p = 2"
    and "lower claw_pkg = ''geoclaw''"
    and "geodata (ClawRunData claw_pkg 2) \<noteq> None"
  shows "read_clawdata nout (setrun_p p ClawRunData claw_pkg) = Inr (int (length (tout_lit p)))
       \<and> read_clawdata tout (setrun_p p ClawRunData claw_pkg) = Inr (tout_lit p)"
  using setrun_p_style2_read[of claw_pkg ClawRunData p] assms by simp

text \<open>
  The hypotheses of C5 (amended) hold for the list \<open>[3, 1, 2]\<close>, which is stored
  unchanged with a frame count of 3.
\<close>

theorem style2_frame_count_witness:
  "read_clawdata nout
     (setrun_p (source_params\<lparr> outstyle_lit := 2, tout_lit := [3, 1, 2] \<rparr>)
        empty_rundata ''geoclaw'') = Inr 3
   \<and> read_clawdata tout
        (setrun_p (source_params\<lparr> outstyle_lit := 2, tout_lit := [3, 1, 2] \<rparr>)
           empty_rundata ''geoclaw'') = Inr [3, 1, 2]"
  using style2_frame_count
     [of "source_params\<lparr> outstyle_lit := 2, tout_lit := [3, 1, 2] \<rparr>" "''geoclaw''" empty_rundata]
  by (simp add: lower_geoclaw empty_rundata_geodata)

text \<open>
  C5 as it is stated asks for a failure when the output times are not strictly ascending;
  the list \<open>[1, 0]\<close> is not ascending and the run returns a frame count of 2.
\<close>

theorem style2_frame_count_counterexample:
  "\<not> sorted_wrt (<) [1, 0 :: real]
   \<and> read_clawdata nout
        (setrun_p (source_params\<lparr> outstyle_lit := 2, tout_lit := [1, 0] \<rparr>)
           empty_rundata ''geoclaw'') = Inr 2"
  using setrun_p_style2_read(1)
     [of "''geoclaw''" empty_rundata "source_params\<lparr> outstyle_lit := 2, tout_lit := [1, 0] \<rparr>"]
  by (simp add: lower_geoclaw empty_rundata_geodata)

text \<open>
  Claim C6, amended. For every package name whose lower-case form differs from
  \<^verbatim>\<open>geoclaw\<close>, \<open>setrun\<close> fails with the assertion error, whatever the library
  constructor and the parameters are (the constructor is not reached), and so does the
  script run with that name as its argument: no run object is returned.
\<close>

theorem package_rejected:
  assumes "lower claw_pkg \<noteq> ''geoclaw''"
  shows "setrun_p p ClawRunData claw_pkg =
           Inl (AssertionError (''Expected claw_pkg = 'geoclaw'' @ [CHR 0x27]))
       \<and> main ClawRunData StormData [script, claw_pkg] =
           Inl (AssertionError (''Expected claw_pkg = 'geoclaw'' @ [CHR 0x27]))"
  using setrun_p_reject[OF assms] by (simp add: main_def setrun_def)

text \<open>
  The name \<^verbatim>\<open>amrclaw\<close> is rejected by \<open>setrun\<close> and by the script.
\<close>

theorem package_rejected_witness:
  "lower ''amrclaw'' \<noteq> ''geoclaw''
   \<and> setrun empty_rundata ''amrclaw'' =
       Inl (AssertionError (''Expected claw_pkg = 'geoclaw'' @ [CHR 0x27]))
   \<and> main empty_rundata empty_storm [''setrun.py'', ''amrclaw''] =
       Inl (AssertionError (''Expected claw_pkg = 'geoclaw'' @ [CHR 0x27]))"
proof -
  have l: "lower ''amrclaw'' \<noteq> ''geoclaw''" by (simp add: lower_def lower_char_def)
  from package_rejected[OF l, of source_params empty_rundata empty_storm "''setrun.py''"] l
  show ?thesis by (simp add: setrun_def)
qed

text \<open>
  C6 as it is stated rejects every name that is not equal to \<^verbatim>\<open>geoclaw\<close>; the name
  \<^verbatim>\<open>GeoClaw\<close> is not equal to it and the run returns an object, with 208 frames.
\<close>

theorem package_rejected_counterexample:
  "''GeoClaw'' \<noteq> ''geoclaw''
   \<and> read_clawdata nout (setrun empty_rundata ''GeoClaw'') = Inr 208"
proof -
  have l: "lower ''GeoClaw'' = ''geoclaw''" by (simp add: lower_def lower_char_def)
  have "step source_params \<noteq> 0" "outstyle_lit source_params = 1"
    by (simp_all add: source_params_def)
  with setrun_p_style1_read(1)[of "''GeoClaw''" empty_rundata source_params] l
    fl_int_numeral_eval
  show ?thesis
    by (simp add: setrun_def source_params_def py_int_def empty_rundata_geodata fdiv_def fmul_def)
qed


text \<open>
  Claim C8, amended. \<open>set_storm\<close> stores the wind and the radius refinement lists as
  they are given, without comparing their lengths; the two lists of the source both have
  length 3.
\<close>

theorem refine_lists_stored:
  "wind_refine (set_storm_p p StormData) = wind_refine_lit p
   \<and> R_refine (set_storm_p p StormData) = R_refine_lit p
   \<and> length (wind_refine (set_storm StormData)) = 3
   \<and> length (R_refine (set_storm StormData)) = 3"
  by (simp add: set_storm_p_def set_storm_def source_params_def)

text \<open>
  C8 as it is stated asks for a failure when the lengths differ; with one wind threshold
  and no radius threshold \<open>set_storm\<close> returns the storm object with both lists stored.
\<close>

theorem refine_lengths_counterexample:
  "wind_refine (set_storm_p (source_params\<lparr> wind_refine_lit := [20], R_refine_lit := [] \<rparr>)
                  empty_storm) = [20]
   \<and> R_refine (set_storm_p (source_params\<lparr> wind_refine_lit := [20], R_refine_lit := [] \<rparr>)
                  empty_storm) = []"
  by (simp add: set_storm_p_def)

text \<open>
  Claim C9. In output style 1 with a fixed positive cadence, the frame count does not
  decrease when the simulated duration grows, when the ramp-up duration grows, or when
  both do: the run with \<open>num_hours \<le> h'\<close> and \<open>RAMP_UP_TIME \<le> r'\<close> in the place
  of the two gives a frame count that is at least as large. Holding one of the two fixed
  is the case \<open>h' = num_hours\<close> or \<open>r' = RAMP_UP_TIME\<close>.
\<close>

theorem frame_count_monotone:
  assumes "0 < step p"
    and "outstyle_lit p = 1"
    and "num_hours p \<le> h'"
    and "RAMP_UP_TIME p \<le> r'"
    and "lower claw_pkg = ''geoclaw''"
    and "geodata (ClawRunData claw_pkg 2) \<noteq> None"
  shows "\<exists>n n'. read_clawdata nout (setrun_p p ClawRunData claw_pkg) = Inr n
       \<and> read_clawdata nout
            (setrun_p (p\<lparr> num_hours := h', RAMP_UP_TIME := r' \<rparr>) ClawRunData claw_pkg) = Inr n'
       \<and> n \<le> n'"
proof -
  let ?p' = "p\<lparr> num_hours := h', RAMP_UP_TIME := r' \<rparr>"
  have s: "step p \<noteq> 0" using assms(1) by simp
  have s': "step ?p' \<noteq> 0" and o': "outstyle_lit ?p' = 1" using assms(1,2) by simp_all
  have "num_hours p / step p \<le> h' / step p"
    using assms(1,3) by (simp add: divide_right_mono)
  then have "fdiv (num_hours p) (step p) \<le> fdiv h' (step p)"
    unfolding fdiv_def by (rule fl_mono)
  then have a: "py_int (fdiv (num_hours p) (step p)) \<le> py_int (fdiv h' (step p))"
    by (rule py_int_mono)
  have "0 < step p * 60\<^sup>2" using assms(1) by simp
  then have d: "0 < fmul (step p) (60\<^sup>2)" unfolding fmul_def by (rule fl_pos)
  have "RAMP_UP_TIME p / fmul (step p) (60\<^sup>2) \<le> r' / fmul (step p) (60\<^sup>2)"
    using assms(4) d by (simp add: divide_right_mono)
  then have "fdiv (RAMP_UP_TIME p) (fmul (step p) (60\<^sup>2)) \<le> fdiv r' (fmul (step p) (60\<^sup>2))"
    unfolding fdiv_def by (rule fl_mono)
  then have b: "\<lceil>fdiv (RAMP_UP_TIME p) (fmul (step p) (60\<^sup>2))\<rceil>
                \<le> \<lceil>fdiv r' (fmul (step p) (60\<^sup>2))\<rceil>"
    by (rule ceiling_mono)
  show ?thesis
    using setrun_p_style1_read(1)[of claw_pkg ClawRunData p]
      setrun_p_style1_read(1)[of claw_pkg ClawRunData ?p'] assms(2,5,6) s s' o' a b
    by simp
qed

text \<open>
  The hypotheses of C9 hold for the source's values against 41 hours and 43201 seconds:
  208 frames against 213.
\<close>

theorem frame_count_monotone_witness:
  "(0::real) < 0.25 \<and> (40::real) \<le> 41 \<and> (43200::real) \<le> 43201
   \<and> read_clawdata nout (setrun_p source_params empty_rundata ''geoclaw'') = Inr 208
   \<and> read_clawdata nout
        (setrun_p (source_params\<lparr> num_hours := 41, RAMP_UP_TIME := 43201 \<rparr>)
           empty_rundata ''geoclaw'') = Inr 213"
proof -
  have h: "0 < step source_params" "outstyle_lit source_params = 1"
      "num_hours source_params \<le> 41" "RAMP_UP_TIME source_params \<le> 43201"
    by (simp_all add: source_params_def)
  have s: "step source_params \<noteq> 0"
    and s': "step (source_params\<lparr> num_hours := 41, RAMP_UP_TIME := 43201 \<rparr>) \<noteq> 0"
    and o': "outstyle_lit (source_params\<lparr> num_hours := 41, RAMP_UP_TIME := 43201 \<rparr>) = 1"
    by (simp_all add: source_params_def)
  have e: "fl 164 = 164" "\<lceil>fl (43201 / 900)\<rceil> = 49"
    by (simp_all add: fl_def ilog2.simps rne_def Let_def)
  from frame_count_monotone[of source_params 41 43201 "''geoclaw''" empty_rundata] h
    lower_geoclaw empty_rundata_geodata
  obtain n n' where "read_clawdata nout (setrun_p source_params empty_rundata ''geoclaw'') = Inr n"
    "read_clawdata nout
        (setrun_p (source_params\<lparr> num_hours := 41, RAMP_UP_TIME := 43201 \<rparr>)
           empty_rundata ''geoclaw'') = Inr n'" "n \<le> n'"
    by blast
  then show ?thesis
    using setrun_p_style1_read(1)[of "''geoclaw''" empty_rundata source_params]
      setrun_p_style1_read(1)[of "''geoclaw''" empty_rundata
         "source_params\<lparr> num_hours := 41, RAMP_UP_TIME := 43201 \<rparr>"]
      lower_geoclaw empty_rundata_geodata h(2) s s' o' fl_int_numeral_eval e
    by (simp add: source_params_def py_int_def fdiv_def fmul_def)
qed



end
